theory Spec2Isabelle
  imports Complex_Main "HOL-Library.Word"
begin

section \<open>Data model of \<open>video_processor.py\<close>\<close>

text \<open>
  A frame is a NumPy array of shape (height, width, 3) with element type uint8, as
  \<open>cap.read()\<close> and \<open>gst_buffer_to_opencv\<close> produce it. The three channels of a pixel
  are kept as a triple, in the order of the last axis (B, G, R for a BGR frame and
  H, S, V after the conversion to HSV). A single-channel image (the result of
  \<open>COLOR_BGR2GRAY\<close> and of \<open>Canny\<close>) has one byte per pixel.
\<close>

type_synonym pixel = "8 word \<times> 8 word \<times> 8 word"

record frame =
  height :: nat
  width :: nat
  pixels :: "pixel list"

record gray_image =
  gheight :: nat
  gwidth :: nat
  gpixels :: "8 word list"

text \<open>Every exception of the source is a value.\<close>

datatype error = CvError | OverflowError | OSError | BrokenPipeError | TimeoutExpired
  | KeyError | TorchError

text \<open>
  The functions of OpenCV that the processor calls. They are not code of the repository,
  so they are parameters of the model; each of them may raise.
\<close>

record cv2_lib =
  GaussianBlur :: "frame \<Rightarrow> int \<Rightarrow> error + frame"
  cvtColor_BGR2GRAY :: "frame \<Rightarrow> error + gray_image"
  Canny :: "gray_image \<Rightarrow> int \<Rightarrow> int \<Rightarrow> error + gray_image"
  cvtColor_GRAY2BGR :: "gray_image \<Rightarrow> error + frame"
  cvtColor_BGR2HSV :: "frame \<Rightarrow> error + frame"
  cvtColor_HSV2BGR :: "frame \<Rightarrow> error + frame"
  imencode_jpg :: "frame \<Rightarrow> error + 8 word list"

text \<open>
  \<open>self.models\<close> is a dictionary from a model name to a network. A network is taken
  as the whole body of the \<open>with torch.no_grad()\<close> block of \<open>apply_ml_enhancement\<close>:
  conversion to a tensor, the forward pass, clipping and conversion back to uint8.
\<close>

type_synonym models = "string \<rightharpoonup> (frame \<Rightarrow> error + frame)"

text \<open>\<open>self.config['processing_effects']\<close>, with the keys that \<open>load_config\<close> gives it.\<close>

record processing_effects =
  blur_enabled :: bool
  blur_kernel_size :: int
  edge_detection_enabled :: bool
  edge_detection_threshold1 :: int
  edge_detection_threshold2 :: int
  color_filter_enabled :: bool
  color_filter_hue_shift :: int
  ml_enhancement_enabled :: bool
  ml_enhancement_model :: string

section \<open>The effect chain\<close>

text \<open>
  \<open>hsv[:,:,0] = (hsv[:,:,0] + hue_shift) % 180\<close> on a uint8 array. The Python integer
  \<open>hue_shift\<close> is converted to the element type of the array: the sum is a uint8 sum,
  which wraps around at 256, and the remainder is taken afterwards. An integer outside
  0..255 cannot be converted and NumPy raises OverflowError before anything is assigned
  (NumPy 2; NumPy 1 widens the element type for such a shift instead, and agrees with
  this definition for every shift in 0..255). Only channel 0 is assigned.
\<close>

definition hue_channel :: "int \<Rightarrow> 8 word \<Rightarrow> 8 word" where
  "hue_channel hue_shift h = (h + word_of_int hue_shift) mod 180"

definition shift_hue :: "int \<Rightarrow> frame \<Rightarrow> error + frame" where
  "shift_hue hue_shift hsv =
     (if hue_shift < 0 \<or> 255 < hue_shift then Inl OverflowError
      else Inr (hsv\<lparr>pixels := map (\<lambda>(h, s, v). (hue_channel hue_shift h, s, v)) (pixels hsv)\<rparr>))"

text \<open>
  \<open>apply_ml_enhancement\<close>: the whole body is inside \<open>try\<close>, and the handler returns the
  frame it was given. The lookup \<open>self.models['enhancement']\<close> is inside the \<open>try\<close> too.
  The function is kept on values: the line that the handler writes to the log is not
  part of the events below.
\<close>

definition apply_ml_enhancement :: "models \<Rightarrow> frame \<Rightarrow> frame" where
  "apply_ml_enhancement ms frame =
     (case ms ''enhancement'' of
        None \<Rightarrow> frame
      | Some net \<Rightarrow> (case net frame of Inl e \<Rightarrow> frame | Inr enhanced \<Rightarrow> enhanced))"

text \<open>
  \<open>apply_effects\<close>. There is no \<open>try\<close> in it: an exception of a stage leaves the
  function at once. \<open>frame.copy()\<close> is the identity on values (the aliasing is the
  subject of the store model further down).
\<close>

definition apply_effects :: "cv2_lib \<Rightarrow> models \<Rightarrow> processing_effects \<Rightarrow> frame \<Rightarrow> error + frame" where
  "apply_effects cv ms effects_config frame =
    (let processed_frame = frame in
     (case (if blur_enabled effects_config
            then GaussianBlur cv processed_frame (blur_kernel_size effects_config)
            else Inr processed_frame) of
        Inl e \<Rightarrow> Inl e
      | Inr processed_frame \<Rightarrow>
     (case (if edge_detection_enabled effects_config
            then (case cvtColor_BGR2GRAY cv processed_frame of
                    Inl e \<Rightarrow> Inl e
                  | Inr gray \<Rightarrow>
                      (case Canny cv gray (edge_detection_threshold1 effects_config)
                                         (edge_detection_threshold2 effects_config) of
                         Inl e \<Rightarrow> Inl e
                       | Inr edges \<Rightarrow> cvtColor_GRAY2BGR cv edges))
            else Inr processed_frame) of
        Inl e \<Rightarrow> Inl e
      | Inr processed_frame \<Rightarrow>
     (case (if color_filter_enabled effects_config
            then (case cvtColor_BGR2HSV cv processed_frame of
                    Inl e \<Rightarrow> Inl e
                  | Inr hsv \<Rightarrow>
                      (case shift_hue (color_filter_hue_shift effects_config) hsv of
                         Inl e \<Rightarrow> Inl e
                       | Inr hsv' \<Rightarrow> cvtColor_HSV2BGR cv hsv'))
            else Inr processed_frame) of
        Inl e \<Rightarrow> Inl e
      | Inr processed_frame \<Rightarrow>
          Inr (if ml_enhancement_enabled effects_config \<and> ms ''enhancement'' \<noteq> None
               then apply_ml_enhancement ms processed_frame
               else processed_frame)))))"

subsection \<open>The chain as the specification words it\<close>

text \<open>
  The specification describes the chain as four stages in a fixed order, each of them
  switched on or off. \<open>run_chain\<close> runs a list of stages from left to right and stops at
  the first stage that raises; \<open>stage_order\<close> is the order the specification names.
\<close>

datatype stage = Blur | EdgeDetection | ColorFilter | Enhancement

definition stage_order :: "stage list" where
  "stage_order = [Blur, EdgeDetection, ColorFilter, Enhancement]"

fun stage_enabled :: "models \<Rightarrow> processing_effects \<Rightarrow> stage \<Rightarrow> bool" where
  "stage_enabled ms ec Blur = blur_enabled ec"
| "stage_enabled ms ec EdgeDetection = edge_detection_enabled ec"
| "stage_enabled ms ec ColorFilter = color_filter_enabled ec"
| "stage_enabled ms ec Enhancement = (ml_enhancement_enabled ec \<and> ms ''enhancement'' \<noteq> None)"

fun run_stage :: "cv2_lib \<Rightarrow> models \<Rightarrow> processing_effects \<Rightarrow> stage \<Rightarrow> frame \<Rightarrow> error + frame" where
  "run_stage cv ms ec Blur f = GaussianBlur cv f (blur_kernel_size ec)"
| "run_stage cv ms ec EdgeDetection f =
     (case cvtColor_BGR2GRAY cv f of
        Inl e \<Rightarrow> Inl e
      | Inr gray \<Rightarrow>
          (case Canny cv gray (edge_detection_threshold1 ec) (edge_detection_threshold2 ec) of
             Inl e \<Rightarrow> Inl e
           | Inr edges \<Rightarrow> cvtColor_GRAY2BGR cv edges))"
| "run_stage cv ms ec ColorFilter f =
     (case cvtColor_BGR2HSV cv f of
        Inl e \<Rightarrow> Inl e
      | Inr hsv \<Rightarrow>
          (case shift_hue (color_filter_hue_shift ec) hsv of
             Inl e \<Rightarrow> Inl e
           | Inr hsv' \<Rightarrow> cvtColor_HSV2BGR cv hsv'))"
| "run_stage cv ms ec Enhancement f = Inr (apply_ml_enhancement ms f)"

fun run_chain :: "cv2_lib \<Rightarrow> models \<Rightarrow> processing_effects \<Rightarrow> stage list \<Rightarrow> frame \<Rightarrow> error + frame" where
  "run_chain cv ms ec [] f = Inr f"
| "run_chain cv ms ec (st # sts) f =
     (case run_stage cv ms ec st f of Inl e \<Rightarrow> Inl e | Inr g \<Rightarrow> run_chain cv ms ec sts g)"

text \<open>
  The chain of the error taxonomy: a stage that raises is skipped, its output being the
  frame that entered it.
\<close>

fun run_chain_recovering :: "cv2_lib \<Rightarrow> models \<Rightarrow> processing_effects \<Rightarrow> stage list \<Rightarrow> frame \<Rightarrow> frame" where
  "run_chain_recovering cv ms ec [] f = f"
| "run_chain_recovering cv ms ec (st # sts) f =
     run_chain_recovering cv ms ec sts (case run_stage cv ms ec st f of Inl e \<Rightarrow> f | Inr g \<Rightarrow> g)"

subsection \<open>Concrete libraries and frames for evaluation\<close>

definition px_frame :: "pixel \<Rightarrow> frame" where
  "px_frame p = \<lparr>height = 1, width = 1, pixels = [p]\<rparr>"

text \<open>A library whose conversions are identities and whose blur swaps the B and R channels.\<close>

definition cv_plain :: cv2_lib where
  "cv_plain = \<lparr>
     GaussianBlur = (\<lambda>f k. Inr (f\<lparr>pixels := map (\<lambda>(b, g, r). (r, g, b)) (pixels f)\<rparr>)),
     cvtColor_BGR2GRAY = (\<lambda>f. Inr \<lparr>gheight = height f, gwidth = width f,
                                   gpixels = map (\<lambda>(b, g, r). g) (pixels f)\<rparr>),
     Canny = (\<lambda>g t1 t2. Inr g),
     cvtColor_GRAY2BGR = (\<lambda>g. Inr \<lparr>height = gheight g, width = gwidth g,
                                   pixels = map (\<lambda>y. (y, y, y)) (gpixels g)\<rparr>),
     cvtColor_BGR2HSV = Inr,
     cvtColor_HSV2BGR = Inr,
     imencode_jpg = (\<lambda>f. Inr [])\<rparr>"

text \<open>The same library with a blur that rejects every kernel size (as OpenCV does an even one).\<close>

definition cv_blur_raises :: cv2_lib where
  "cv_blur_raises = cv_plain\<lparr>GaussianBlur := (\<lambda>f k. Inl CvError)\<rparr>"

text \<open>The effects of \<open>default_config\<close>: every stage disabled.\<close>

definition default_effects :: processing_effects where
  "default_effects = \<lparr>
     blur_enabled = False, blur_kernel_size = 15,
     edge_detection_enabled = False, edge_detection_threshold1 = 100,
     edge_detection_threshold2 = 200,
     color_filter_enabled = False, color_filter_hue_shift = 0,
     ml_enhancement_enabled = False, ml_enhancement_model = ''esrgan''\<rparr>"

section \<open>The processor: registry, sink processes, external world\<close>

text \<open>
  \<open>input_config\<close> and each element of \<open>output_configs\<close> are dictionaries that the
  processor reads at the key \<open>'type'\<close> only; the other keys are carried along.
\<close>

record input_config =
  input_type :: string
  input_params :: "(string \<times> string) list"

record output_config =
  output_type :: string
  output_params :: "(string \<times> string) list"

text \<open>An entry of \<open>self.active_streams\<close>. \<open>time.time()\<close> is a real number of seconds.\<close>

record stream =
  input :: input_config
  outputs :: "output_config list"
  start_time :: real
  frame_count :: int

text \<open>
  The argument list \<open>ffmpeg_cmd\<close>, reduced to the parts that vary: the frame size
  \<open>-s WxH\<close>, the segmenting option with its duration, and the target file.
\<close>

record ffmpeg_cmd =
  cmd_size :: "nat \<times> nat"
  cmd_segment_option :: string
  cmd_segment_duration :: int
  cmd_target :: string

text \<open>
  What the processor does to the world outside, in the order it does it. A process is
  named by the attribute of \<open>self\<close> that holds it (\<open>hls_process_<id>\<close>,
  \<open>dash_process_<id>\<close>).
\<close>

datatype event =
    Makedirs string
  | Popen ffmpeg_cmd
  | StdinWrite string frame
  | SendWebRTC string "8 word list"
  | StdinClose string
  | Terminate string
  | Wait string nat
  | Kill string
  | CaptureRead string
  | CaptureRelease string
  | LogError string

text \<open>
  The operating system as the processor meets it: which calls raise. \<open>write_raises\<close>
  covers \<open>stdin.write\<close> and \<open>stdin.flush\<close> together; \<open>close_raises\<close> is
  \<open>stdin.close()\<close> (it flushes); \<open>wait_times_out\<close> is \<open>wait(timeout=5)\<close> raising
  TimeoutExpired. \<open>terminate()\<close> and \<open>kill()\<close> send a signal to a child of the
  processor and do not raise. \<open>video_capture url\<close> is \<open>None\<close> when \<open>isOpened()\<close> is
  false, and otherwise the frames that \<open>read()\<close> returns before it reports no frame.
\<close>

record os_env =
  makedirs_raises :: "string \<Rightarrow> bool"
  popen_raises :: "ffmpeg_cmd \<Rightarrow> bool"
  write_raises :: "string \<Rightarrow> frame \<Rightarrow> bool"
  close_raises :: "string \<Rightarrow> bool"
  wait_times_out :: "string \<Rightarrow> bool"
  video_capture :: "string \<Rightarrow> frame list option"

text \<open>\<open>self.config\<close>: the effects and the two segment durations of \<open>'streaming'\<close>.\<close>

record config =
  effects :: processing_effects
  hls_segment_duration :: int
  dash_segment_duration :: int

text \<open>What does not change after \<open>__init__\<close>: libraries, world, configuration, models.\<close>

record processor =
  cv2 :: cv2_lib
  os :: os_env
  conf :: config
  models :: models

text \<open>
  What changes: the registry \<open>self.active_streams\<close>, the attributes \<open>hls_process_*\<close> and
  \<open>dash_process_*\<close> of \<open>self\<close> (each holds the \<open>Popen\<close> object, here the command it was
  started with), and the events so far. The lock is held for a whole \<open>add_stream\<close> or
  \<open>remove_stream\<close>; the model runs one call at a time.
\<close>

record vp_state =
  active_streams :: "string \<rightharpoonup> stream"
  attrs :: "string \<rightharpoonup> ffmpeg_cmd"
  events :: "event list"

definition emit :: "event list \<Rightarrow> vp_state \<Rightarrow> vp_state" where
  "emit evs s = s\<lparr>events := events s @ evs\<rparr>"

subsection \<open>Sinks\<close>

text \<open>\<open>output_webrtc\<close>: everything is inside \<open>try\<close>; \<open>send_to_webrtc_client\<close> is \<open>pass\<close>.\<close>

definition output_webrtc :: "processor \<Rightarrow> string \<Rightarrow> frame \<Rightarrow> vp_state \<Rightarrow> vp_state" where
  "output_webrtc P stream_id frame s =
     (case imencode_jpg (cv2 P) frame of
        Inl e \<Rightarrow> emit [LogError ''WebRTC output error''] s
      | Inr encoded_frame \<Rightarrow> emit [SendWebRTC stream_id encoded_frame] s)"

text \<open>
  \<open>output_hls\<close> and \<open>output_dash\<close> are the same text up to the directory, the command,
  the attribute and the log message; \<open>pipe_to_ffmpeg\<close> is that common text.
  \<open>os.makedirs\<close> stands before the \<open>try\<close>: when it raises, the function raises. Inside the
  \<open>try\<close>, the process is started when the attribute is missing, then the frame is written;
  an exception of either is logged and the function returns.
\<close>

definition pipe_to_ffmpeg ::
  "processor \<Rightarrow> string \<Rightarrow> ffmpeg_cmd \<Rightarrow> string \<Rightarrow> string \<Rightarrow> frame \<Rightarrow> vp_state \<Rightarrow> error option \<times> vp_state" where
  "pipe_to_ffmpeg P output_path cmd process_attr msg frame s =
     (if makedirs_raises (os P) output_path then (Some OSError, s)
      else
        let s = emit [Makedirs output_path] s in
        (case (if attrs s process_attr = None
               then (if popen_raises (os P) cmd then Inl OSError
                     else Inr (emit [Popen cmd] (s\<lparr>attrs := (attrs s)(process_attr \<mapsto> cmd)\<rparr>)))
               else Inr s) of
           Inl e \<Rightarrow> (None, emit [LogError msg] s)
         | Inr s \<Rightarrow>
             (if write_raises (os P) process_attr frame
              then (None, emit [LogError msg] s)
              else (None, emit [StdinWrite process_attr frame] s))))"

definition hls_attr :: "string \<Rightarrow> string" where
  "hls_attr stream_id = ''hls_process_'' @ stream_id"

definition dash_attr :: "string \<Rightarrow> string" where
  "dash_attr stream_id = ''dash_process_'' @ stream_id"

definition hls_cmd :: "processor \<Rightarrow> string \<Rightarrow> frame \<Rightarrow> ffmpeg_cmd" where
  "hls_cmd P stream_id frame =
     \<lparr>cmd_size = (width frame, height frame), cmd_segment_option = ''-hls_time'',
      cmd_segment_duration = hls_segment_duration (conf P),
      cmd_target = ''output/'' @ stream_id @ ''/hls'' @ ''/playlist.m3u8''\<rparr>"

definition dash_cmd :: "processor \<Rightarrow> string \<Rightarrow> frame \<Rightarrow> ffmpeg_cmd" where
  "dash_cmd P stream_id frame =
     \<lparr>cmd_size = (width frame, height frame), cmd_segment_option = ''-seg_duration'',
      cmd_segment_duration = dash_segment_duration (conf P),
      cmd_target = ''output/'' @ stream_id @ ''/dash'' @ ''/manifest.mpd''\<rparr>"

definition output_hls :: "processor \<Rightarrow> string \<Rightarrow> frame \<Rightarrow> vp_state \<Rightarrow> error option \<times> vp_state" where
  "output_hls P stream_id frame s =
     pipe_to_ffmpeg P (''output/'' @ stream_id @ ''/hls'') (hls_cmd P stream_id frame)
       (hls_attr stream_id) ''HLS output error'' frame s"

definition output_dash :: "processor \<Rightarrow> string \<Rightarrow> frame \<Rightarrow> vp_state \<Rightarrow> error option \<times> vp_state" where
  "output_dash P stream_id frame s =
     pipe_to_ffmpeg P (''output/'' @ stream_id @ ''/dash'') (dash_cmd P stream_id frame)
       (dash_attr stream_id) ''DASH output error'' frame s"

text \<open>One turn of the loop of \<open>output_frame\<close>: the \<open>if\<close>/\<open>elif\<close> chain on the type.\<close>

definition output_one ::
  "processor \<Rightarrow> string \<Rightarrow> frame \<Rightarrow> output_config \<Rightarrow> vp_state \<Rightarrow> error option \<times> vp_state" where
  "output_one P stream_id frame output_config s =
     (if output_type output_config = ''webrtc'' then (None, output_webrtc P stream_id frame s)
      else if output_type output_config = ''hls'' then output_hls P stream_id frame s
      else if output_type output_config = ''dash'' then output_dash P stream_id frame s
      else (None, s))"

text \<open>The \<open>for\<close> loop: an exception that leaves one turn ends the loop.\<close>

fun output_loop ::
  "processor \<Rightarrow> string \<Rightarrow> frame \<Rightarrow> output_config list \<Rightarrow> vp_state \<Rightarrow> error option \<times> vp_state" where
  "output_loop P stream_id frame [] s = (None, s)"
| "output_loop P stream_id frame (output_config # rest) s =
     (case output_one P stream_id frame output_config s of
        (Some e, s') \<Rightarrow> (Some e, s')
      | (None, s') \<Rightarrow> output_loop P stream_id frame rest s')"

definition output_frame :: "processor \<Rightarrow> string \<Rightarrow> frame \<Rightarrow> vp_state \<Rightarrow> error option \<times> vp_state" where
  "output_frame P stream_id frame s =
     (let output_configs = (case active_streams s stream_id of None \<Rightarrow> [] | Some st \<Rightarrow> outputs st)
      in output_loop P stream_id frame output_configs s)"

subsection \<open>One frame\<close>

text \<open>\<open>process_frame\<close>: one \<open>try\<close> around the chain and the delivery; the handler logs.\<close>

definition process_frame :: "processor \<Rightarrow> string \<Rightarrow> frame \<Rightarrow> vp_state \<Rightarrow> vp_state" where
  "process_frame P stream_id frame s =
     (case apply_effects (cv2 P) (models P) (effects (conf P)) frame of
        Inl e \<Rightarrow> emit [LogError ''Error processing frame''] s
      | Inr processed_frame \<Rightarrow>
          (case output_frame P stream_id processed_frame s of
             (Some e, s') \<Rightarrow> emit [LogError ''Error processing frame''] s'
           | (None, s') \<Rightarrow> s'))"

text \<open>Frames one after the other, as a stream's loop or callback hands them over.\<close>

fun process_frames :: "processor \<Rightarrow> string \<Rightarrow> frame list \<Rightarrow> vp_state \<Rightarrow> vp_state" where
  "process_frames P stream_id [] s = s"
| "process_frames P stream_id (frame # rest) s =
     process_frames P stream_id rest (process_frame P stream_id frame s)"

subsection \<open>Registry operations\<close>

definition add_stream ::
  "real \<Rightarrow> string \<Rightarrow> input_config \<Rightarrow> output_config list \<Rightarrow> vp_state \<Rightarrow> vp_state" where
  "add_stream now stream_id input_cfg output_configs s =
     s\<lparr>active_streams := (active_streams s)(stream_id \<mapsto>
          \<lparr>input = input_cfg, outputs = output_configs, start_time = now, frame_count = 0\<rparr>)\<rparr>"

text \<open>
  The body of the \<open>for process_attr in [...]\<close> loop of \<open>remove_stream\<close>. The bare
  \<open>except\<close> takes an exception of \<open>close\<close>, \<open>terminate\<close> or \<open>wait\<close> to \<open>kill()\<close>.
\<close>

definition teardown :: "processor \<Rightarrow> vp_state \<Rightarrow> string \<Rightarrow> vp_state" where
  "teardown P s process_attr =
     (if attrs s process_attr = None then s
      else
        let s = (if close_raises (os P) process_attr
                 then emit [StdinClose process_attr, Kill process_attr] s
                 else if wait_times_out (os P) process_attr
                 then emit [StdinClose process_attr, Terminate process_attr,
                            Wait process_attr 5, Kill process_attr] s
                 else emit [StdinClose process_attr, Terminate process_attr,
                            Wait process_attr 5] s)
        in s\<lparr>attrs := (attrs s)(process_attr := None)\<rparr>)"

definition remove_stream :: "processor \<Rightarrow> string \<Rightarrow> vp_state \<Rightarrow> vp_state" where
  "remove_stream P stream_id s =
     (if active_streams s stream_id \<noteq> None
      then foldl (teardown P)
             (s\<lparr>active_streams := (active_streams s)(stream_id := None)\<rparr>)
             [hls_attr stream_id, dash_attr stream_id]
      else s)"

record stream_stats =
  stats_stream_id :: string
  stats_duration :: real
  stats_frame_count :: int
  stats_fps :: real
  stats_input_type :: string
  stats_output_types :: "string list"

text \<open>
  \<open>get_stream_stats\<close>, with the processor it leaves behind. \<open>current_time\<close> is the value
  of \<open>time.time()\<close>. The quotient is Python's true division of an integer by a float,
  taken here in the reals.
\<close>

definition get_stream_stats ::
  "real \<Rightarrow> string \<Rightarrow> vp_state \<Rightarrow> stream_stats option \<times> vp_state" where
  "get_stream_stats current_time stream_id s =
     (case active_streams s stream_id of
        None \<Rightarrow> (None, s)
      | Some stream \<Rightarrow>
          let duration = current_time - start_time stream in
          (Some \<lparr>stats_stream_id = stream_id,
                 stats_duration = duration,
                 stats_frame_count = frame_count stream,
                 stats_fps = (if duration > 0 then real_of_int (frame_count stream) / duration else 0),
                 stats_input_type = input_type (input stream),
                 stats_output_types = map output_type (outputs stream)\<rparr>, s))"

subsection \<open>The pull loop\<close>

text \<open>
  The \<open>while True\<close> loop of \<open>process_with_opencv\<close>, over the frames that the capture
  still holds. \<open>await self.process_frame\<close> is where the rest of the program runs:
  \<open>others\<close> lists, turn by turn, what the rest of the program does to the processor
  in the meantime (nothing once the list is used up). The test
  \<open>stream_id not in self.active_streams\<close> follows. Both ways out pass through
  \<open>finally: cap.release()\<close>.
\<close>

fun read_loop ::
  "processor \<Rightarrow> string \<Rightarrow> string \<Rightarrow> frame list \<Rightarrow> (vp_state \<Rightarrow> vp_state) list \<Rightarrow> vp_state \<Rightarrow> vp_state" where
  "read_loop P input_url stream_id [] others s =
     emit [CaptureRead input_url, CaptureRelease input_url] s"
| "read_loop P input_url stream_id (frame # rest) others s =
     (let s = process_frame P stream_id frame (emit [CaptureRead input_url] s);
          s = (case others of [] \<Rightarrow> s | other # _ \<Rightarrow> other s)
      in if active_streams s stream_id = None
         then emit [CaptureRelease input_url] s
         else read_loop P input_url stream_id rest (tl others) s)"

definition process_with_opencv ::
  "processor \<Rightarrow> string \<Rightarrow> string \<Rightarrow> (vp_state \<Rightarrow> vp_state) list \<Rightarrow> vp_state \<Rightarrow> vp_state" where
  "process_with_opencv P input_url stream_id others s =
     (case video_capture (os P) input_url of
        None \<Rightarrow> emit [LogError ''Failed to open video stream''] s
      | Some frames \<Rightarrow> read_loop P input_url stream_id frames others s)"

subsection \<open>A concrete processor and concrete states for evaluation\<close>

text \<open>A world in which no call raises and no capture can be opened.\<close>

definition os_quiet :: os_env where
  "os_quiet = \<lparr>makedirs_raises = (\<lambda>p. False), popen_raises = (\<lambda>c. False),
     write_raises = (\<lambda>a f. False), close_raises = (\<lambda>a. False),
     wait_times_out = (\<lambda>a. False), video_capture = (\<lambda>u. None)\<rparr>"

definition default_config :: config where
  "default_config =
     \<lparr>effects = default_effects, hls_segment_duration = 6, dash_segment_duration = 4\<rparr>"

definition P0 :: processor where
  "P0 = \<lparr>cv2 = cv_plain, os = os_quiet, conf = default_config, models = Map.empty\<rparr>"

text \<open>The processor after \<open>__init__\<close>.\<close>

definition s_init :: vp_state where
  "s_init = \<lparr>active_streams = Map.empty, attrs = Map.empty, events = []\<rparr>"

definition rtmp_in :: input_config where
  "rtmp_in = \<lparr>input_type = ''rtmp'', input_params = []\<rparr>"

definition out_of :: "string \<Rightarrow> output_config" where
  "out_of t = \<lparr>output_type = t, output_params = []\<rparr>"

text \<open>A registry with one stream, started at time 100, whose counter reads 30.\<close>

definition s_counted :: vp_state where
  "s_counted = \<lparr>active_streams = [''cam'' \<mapsto> \<lparr>input = rtmp_in,
       outputs = [out_of ''webrtc'', out_of ''hls''], start_time = 100, frame_count = 30\<rparr>],
     attrs = Map.empty, events = []\<rparr>"

subsection \<open>Failing libraries and worlds\<close>

text \<open>
  Blur enabled on a library whose blur raises; a stream with a WebRTC output; a network
  that raises. \<open>process_frame_recovering\<close> is \<open>process_frame\<close> as the error taxonomy of
  the specification describes it: the chain skips a stage that raises, and the frame is
  delivered.
\<close>

definition blur_on :: processing_effects where
  "blur_on = default_effects\<lparr>blur_enabled := True\<rparr>"

definition P_blur :: processor where
  "P_blur = P0\<lparr>cv2 := cv_blur_raises, conf := default_config\<lparr>effects := blur_on\<rparr>\<rparr>"

definition s_webrtc :: vp_state where
  "s_webrtc = add_stream 0 ''s1'' rtmp_in [out_of ''webrtc''] s_init"

definition net_raises :: models where
  "net_raises = [''enhancement'' \<mapsto> (\<lambda>f. Inl TorchError)]"

definition process_frame_recovering :: "processor \<Rightarrow> string \<Rightarrow> frame \<Rightarrow> vp_state \<Rightarrow> vp_state" where
  "process_frame_recovering P stream_id frame s =
     (case output_frame P stream_id
             (run_chain_recovering (cv2 P) (models P) (effects (conf P))
                (filter (stage_enabled (models P) (effects (conf P))) stage_order) frame) s of
        (Some e, s') \<Rightarrow> emit [LogError ''Error processing frame''] s'
      | (None, s') \<Rightarrow> s')"

subsection \<open>Teardown and delivery, as the specification words them\<close>

text \<open>
  The graceful teardown of a sink process: close the write channel, ask the process to
  terminate, wait up to 5 seconds, kill it when the wait times out. \<open>sink_teardown\<close> is
  what happens to the process held by an attribute: nothing when there is none, and a
  kill straight after a \<open>close\<close> that raised. \<open>P_slow\<close> is a processor whose DASH process
  of stream \<open>s1\<close> does not exit in time; \<open>s_live\<close> has both processes of \<open>s1\<close> running.
\<close>

definition graceful_teardown :: "processor \<Rightarrow> string \<Rightarrow> event list" where
  "graceful_teardown P a =
     [StdinClose a, Terminate a, Wait a 5] @ (if wait_times_out (os P) a then [Kill a] else [])"

definition sink_teardown :: "processor \<Rightarrow> vp_state \<Rightarrow> string \<Rightarrow> event list" where
  "sink_teardown P s a =
     (if attrs s a = None then []
      else if close_raises (os P) a then [StdinClose a, Kill a]
      else graceful_teardown P a)"



text \<open>
  A sink accepts a frame when its own calls succeed: the JPEG encoding for WebRTC; for a
  segmented sink the start of its process, unless it runs already, and the write.
  A frame has been delivered to a sink when the events hold the hand-over to the
  transport hook, or the write to the sink's process.
\<close>

definition sink_accepts :: "processor \<Rightarrow> string \<Rightarrow> frame \<Rightarrow> vp_state \<Rightarrow> output_config \<Rightarrow> bool" where
  "sink_accepts P stream_id frame s oc =
     (if output_type oc = ''webrtc''
      then (case imencode_jpg (cv2 P) frame of Inl e \<Rightarrow> False | Inr payload \<Rightarrow> True)
      else if output_type oc = ''hls''
      then (attrs s (hls_attr stream_id) \<noteq> None \<or> \<not> popen_raises (os P) (hls_cmd P stream_id frame))
           \<and> \<not> write_raises (os P) (hls_attr stream_id) frame
      else if output_type oc = ''dash''
      then (attrs s (dash_attr stream_id) \<noteq> None \<or> \<not> popen_raises (os P) (dash_cmd P stream_id frame))
           \<and> \<not> write_raises (os P) (dash_attr stream_id) frame
      else False)"

definition delivered :: "processor \<Rightarrow> string \<Rightarrow> frame \<Rightarrow> event list \<Rightarrow> output_config \<Rightarrow> bool" where
  "delivered P stream_id frame evs oc =
     (if output_type oc = ''webrtc''
      then (case imencode_jpg (cv2 P) frame of
              Inl e \<Rightarrow> False
            | Inr payload \<Rightarrow> SendWebRTC stream_id payload \<in> set evs)
      else if output_type oc = ''hls'' then StdinWrite (hls_attr stream_id) frame \<in> set evs
      else if output_type oc = ''dash'' then StdinWrite (dash_attr stream_id) frame \<in> set evs
      else False)"

text \<open>A processor for which ffmpeg cannot be started for HLS, and a stream with three sinks.\<close>

definition P_hls_down :: processor where
  "P_hls_down = P0\<lparr>os := os_quiet\<lparr>popen_raises := (\<lambda>c. cmd_segment_option c = ''-hls_time'')\<rparr>\<rparr>"

definition s_three :: vp_state where
  "s_three = add_stream 0 ''s1'' rtmp_in [out_of ''hls'', out_of ''webrtc'', out_of ''dash''] s_init"

text \<open>
  A processor for which the HLS directory of stream \<open>s1\<close> cannot be created (a file
  stands in its place, or the file system is read-only); everything else succeeds.
\<close>

definition P_no_dirs :: processor where
  "P_no_dirs = P0\<lparr>os := os_quiet\<lparr>makedirs_raises := (\<lambda>p. p = ''output/s1/hls'')\<rparr>\<rparr>"

text \<open>A processor whose capture on \<open>rtmp://cam\<close> holds two frames.\<close>

definition P_cam :: processor where
  "P_cam = P0\<lparr>os := os_quiet\<lparr>video_capture :=
     (\<lambda>u. if u = ''rtmp://cam'' then Some [px_frame (1, 2, 3), px_frame (4, 5, 6)] else None)\<rparr>\<rparr>"

text \<open>One turn of the pull loop without its test: read a frame and process it.\<close>

definition read_and_process :: "processor \<Rightarrow> string \<Rightarrow> string \<Rightarrow> frame \<Rightarrow> vp_state \<Rightarrow> vp_state" where
  "read_and_process P input_url stream_id frame s =
     process_frame P stream_id frame (emit [CaptureRead input_url] s)"

section \<open>The effect chain on a store of arrays\<close>

text \<open>
  NumPy arrays are objects: the caller of \<open>apply_effects\<close> and the function share the
  array that is passed. The store is the list of all frames allocated so far, a
  reference is an index into it, and an assignment through a reference updates the
  store in place.
\<close>

type_synonym store = "frame list"

text \<open>\<open>frame.copy()\<close> and every OpenCV call return a new array.\<close>

definition new_array :: "frame \<Rightarrow> store \<Rightarrow> nat \<times> store" where
  "new_array f h = (length h, h @ [f])"

text \<open>The \<open>if\<close> blocks of \<open>apply_effects\<close>, on references. Gray images are temporaries
  that nothing assigns to; they stay values.\<close>

definition blur_block ::
  "cv2_lib \<Rightarrow> processing_effects \<Rightarrow> nat \<Rightarrow> store \<Rightarrow> (error + nat) \<times> store" where
  "blur_block cv effects_config processed_frame h =
     (if blur_enabled effects_config
      then (case GaussianBlur cv (h ! processed_frame) (blur_kernel_size effects_config) of
              Inl e \<Rightarrow> (Inl e, h)
            | Inr blurred \<Rightarrow> (case new_array blurred h of (a, h') \<Rightarrow> (Inr a, h')))
      else (Inr processed_frame, h))"

definition edge_block ::
  "cv2_lib \<Rightarrow> processing_effects \<Rightarrow> nat \<Rightarrow> store \<Rightarrow> (error + nat) \<times> store" where
  "edge_block cv effects_config processed_frame h =
     (if edge_detection_enabled effects_config
      then (case cvtColor_BGR2GRAY cv (h ! processed_frame) of
              Inl e \<Rightarrow> (Inl e, h)
            | Inr gray \<Rightarrow>
                (case Canny cv gray (edge_detection_threshold1 effects_config)
                                   (edge_detection_threshold2 effects_config) of
                   Inl e \<Rightarrow> (Inl e, h)
                 | Inr edges \<Rightarrow>
                     (case cvtColor_GRAY2BGR cv edges of
                        Inl e \<Rightarrow> (Inl e, h)
                      | Inr bgr \<Rightarrow> (case new_array bgr h of (a, h') \<Rightarrow> (Inr a, h')))))
      else (Inr processed_frame, h))"

text \<open>
  The colour filter is the one place that assigns into an array: \<open>hsv[:,:,0] = ...\<close>
  writes into the array that \<open>cvtColor\<close> has just returned.
\<close>

definition color_block ::
  "cv2_lib \<Rightarrow> processing_effects \<Rightarrow> nat \<Rightarrow> store \<Rightarrow> (error + nat) \<times> store" where
  "color_block cv effects_config processed_frame h =
     (if color_filter_enabled effects_config
      then (case cvtColor_BGR2HSV cv (h ! processed_frame) of
              Inl e \<Rightarrow> (Inl e, h)
            | Inr converted \<Rightarrow>
                (case new_array converted h of (hsv, h1) \<Rightarrow>
                   (case shift_hue (color_filter_hue_shift effects_config) (h1 ! hsv) of
                      Inl e \<Rightarrow> (Inl e, h1)
                    | Inr shifted \<Rightarrow>
                        (let h2 = h1[hsv := shifted] in
                         (case cvtColor_HSV2BGR cv (h2 ! hsv) of
                            Inl e \<Rightarrow> (Inl e, h2)
                          | Inr bgr \<Rightarrow> (case new_array bgr h2 of (a, h3) \<Rightarrow> (Inr a, h3)))))))
      else (Inr processed_frame, h))"

text \<open>\<open>apply_ml_enhancement\<close> returns a new array, or on failure the reference it was given.\<close>

definition apply_ml_enhancement_in_store :: "models \<Rightarrow> nat \<Rightarrow> store \<Rightarrow> nat \<times> store" where
  "apply_ml_enhancement_in_store ms frame h =
     (case ms ''enhancement'' of
        None \<Rightarrow> (frame, h)
      | Some net \<Rightarrow>
          (case net (h ! frame) of Inl e \<Rightarrow> (frame, h) | Inr enhanced \<Rightarrow> new_array enhanced h))"

definition enhancement_block ::
  "models \<Rightarrow> processing_effects \<Rightarrow> nat \<Rightarrow> store \<Rightarrow> (error + nat) \<times> store" where
  "enhancement_block ms effects_config processed_frame h =
     (if ml_enhancement_enabled effects_config \<and> ms ''enhancement'' \<noteq> None
      then (case apply_ml_enhancement_in_store ms processed_frame h of (a, h') \<Rightarrow> (Inr a, h'))
      else (Inr processed_frame, h))"

text \<open>Sequencing: an exception of a block ends the function, with the store as it is.\<close>

definition and_then ::
  "(error + nat) \<times> store \<Rightarrow> (nat \<Rightarrow> store \<Rightarrow> (error + nat) \<times> store) \<Rightarrow> (error + nat) \<times> store" where
  "and_then r block = (case r of (Inl e, h) \<Rightarrow> (Inl e, h) | (Inr a, h) \<Rightarrow> block a h)"

definition apply_effects_in_store ::
  "cv2_lib \<Rightarrow> models \<Rightarrow> processing_effects \<Rightarrow> nat \<Rightarrow> store \<Rightarrow> (error + nat) \<times> store" where
  "apply_effects_in_store cv ms effects_config frame h =
     (case new_array (h ! frame) h of (processed_frame, h) \<Rightarrow>
        and_then (and_then (and_then (blur_block cv effects_config processed_frame h)
          (edge_block cv effects_config))
          (color_block cv effects_config))
          (enhancement_block ms effects_config))"

text \<open>
  What a block may do, relative to the stage \<open>pure\<close> on values that it implements: the
  store grows at its end only, and the result is the error of the stage or a reference
  to the frame the stage returns, that reference being the one given or a new one.
\<close>

definition block_ok ::
  "(frame \<Rightarrow> error + frame) \<Rightarrow> nat \<Rightarrow> store \<Rightarrow> (error + nat) \<times> store \<Rightarrow> bool" where
  "block_ok pure p h res =
     (case res of (r, h') \<Rightarrow>
        take (length h) h' = h \<and> length h \<le> length h'
        \<and> (case r of Inl e \<Rightarrow> pure (h ! p) = Inl e
            | Inr q \<Rightarrow> q < length h' \<and> (q = p \<or> length h \<le> q) \<and> pure (h ! p) = Inr (h' ! q)))"

definition pure_block :: "cv2_lib \<Rightarrow> models \<Rightarrow> processing_effects \<Rightarrow> stage \<Rightarrow> frame \<Rightarrow> error + frame" where
  "pure_block cv ms ec st f = (if stage_enabled ms ec st then run_stage cv ms ec st f else Inr f)"

definition blur_and_color :: processing_effects where
  "blur_and_color = default_effects\<lparr>blur_enabled := True, color_filter_enabled := True,
     color_filter_hue_shift := 10\<rparr>"

section \<open>Properties of the effect chain\<close>

lemma apply_effects_chain:
  "apply_effects cv ms ec f = run_chain cv ms ec (filter (stage_enabled ms ec) stage_order) f"
  by (cases "blur_enabled ec"; cases "edge_detection_enabled ec";
      cases "color_filter_enabled ec";
      cases "ml_enhancement_enabled ec"; cases "ms ''enhancement''")
     (simp_all add: apply_effects_def stage_order_def split: sum.splits)

text \<open>
  Claim C2. The chain that \<open>apply_effects\<close> computes is the chain of the enabled stages
  among blur, edge detection, colour filter and enhancement, run in that order and in no
  other; a stage that is not enabled is left out, so the frame passes it unchanged; and
  with every stage disabled the frame that comes back is the frame that went in.
\<close>

theorem apply_effects_fixed_order:
  "apply_effects cv ms ec frame
     = run_chain cv ms ec (filter (stage_enabled ms ec) stage_order) frame
   \<and> (\<not> blur_enabled ec \<and> \<not> edge_detection_enabled ec \<and> \<not> color_filter_enabled ec
        \<and> \<not> ml_enhancement_enabled ec \<longrightarrow> apply_effects cv ms ec frame = Inr frame)"
  by (simp add: apply_effects_chain stage_order_def)

theorem apply_effects_fixed_order_witness:
  "\<not> blur_enabled default_effects \<and> \<not> edge_detection_enabled default_effects
   \<and> \<not> color_filter_enabled default_effects \<and> \<not> ml_enhancement_enabled default_effects
   \<and> apply_effects cv_plain Map.empty default_effects (px_frame (1, 2, 3)) = Inr (px_frame (1, 2, 3))"
proof -
  have off: "\<not> blur_enabled default_effects \<and> \<not> edge_detection_enabled default_effects
    \<and> \<not> color_filter_enabled default_effects \<and> \<not> ml_enhancement_enabled default_effects"
    by (simp add: default_effects_def)
  with apply_effects_fixed_order [of cv_plain Map.empty default_effects "px_frame (1, 2, 3)"]
  show ?thesis by blast
qed

subsection \<open>The hue rotation\<close>

text \<open>
  Where the uint8 sum does not reach 256, the colour filter computes what the
  specification says: the hue plus the shift, modulo 180.
\<close>

lemma hue_channel_no_wrap:
  assumes "0 \<le> k" "unat h + nat k < 256"
  shows "unat (hue_channel k h) = (unat h + nat k) mod 180"
proof -
  have "k < 256"
    using assms by linarith
  then have "uint (word_of_int k :: 8 word) = k"
    using assms(1) by (simp only: uint_word_of_int) simp
  then have k: "unat (word_of_int k :: 8 word) = nat k"
    by (simp only: unat_eq_nat_uint)
  have "unat (h + word_of_int k) = (unat h + unat (word_of_int k :: 8 word)) mod 2 ^ LENGTH(8)"
    by (rule unat_word_ariths(1))
  then have sum: "unat (h + word_of_int k) = unat h + nat k"
    using assms(2) k by simp
  have "unat (hue_channel k h) = unat (h + word_of_int k) mod unat (180 :: 8 word)"
    unfolding hue_channel_def by (rule unat_mod)
  then show ?thesis
    using sum by simp
qed

text \<open>
  Claim C9. The hue of a pixel after the colour filter is not always the original hue
  plus \<open>hue_shift\<close> modulo 180: the sum is taken in uint8 and wraps at 256 first. With the
  conversions to and from HSV being the identity, hue 179 shifted by 77 comes out as 0,
  where \<open>(179 + 77) mod 180\<close> is 76. Saturation and value are unchanged.
\<close>

theorem hue_shift_wraps_at_256:
  "apply_effects cv_plain Map.empty
     (default_effects\<lparr>color_filter_enabled := True, color_filter_hue_shift := 77\<rparr>)
     (px_frame (179, 10, 20)) = Inr (px_frame (0, 10, 20))
   \<and> (179 + 77) mod 180 = (76 :: int)"
  by (simp add: apply_effects_def default_effects_def cv_plain_def px_frame_def shift_hue_def
        hue_channel_def)

section \<open>Properties of the processor\<close>

subsection \<open>What a frame leaves alone\<close>

lemma emit_fields [simp]:
  "active_streams (emit evs s) = active_streams s"
  "attrs (emit evs s) = attrs s"
  "events (emit evs s) = events s @ evs"
  by (simp_all add: emit_def)

lemma output_webrtc_fields [simp]:
  "active_streams (output_webrtc P sid f s) = active_streams s"
  "attrs (output_webrtc P sid f s) = attrs s"
  by (simp_all add: output_webrtc_def split: sum.splits)

lemma pipe_to_ffmpeg_active_streams [simp]:
  "active_streams (snd (pipe_to_ffmpeg P path cmd a msg f s)) = active_streams s"
  by (simp add: pipe_to_ffmpeg_def Let_def)

lemma output_one_active_streams [simp]:
  "active_streams (snd (output_one P sid f oc s)) = active_streams s"
  by (simp add: output_one_def output_hls_def output_dash_def)

lemma output_loop_active_streams [simp]:
  "active_streams (snd (output_loop P sid f ocs s)) = active_streams s"
proof (induction ocs arbitrary: s)
  case Nil
  show ?case by simp
next
  case (Cons oc ocs)
  obtain r s' where one: "output_one P sid f oc s = (r, s')"
    by (cases "output_one P sid f oc s")
  have s': "active_streams s' = active_streams s"
    using output_one_active_streams [of P sid f oc s] one by simp
  show ?case
    using Cons.IH [of s'] one s' by (cases r) simp_all
qed

lemma output_frame_active_streams [simp]:
  "active_streams (snd (output_frame P sid f s)) = active_streams s"
  by (simp add: output_frame_def)

lemma process_frame_active_streams [simp]:
  "active_streams (process_frame P sid f s) = active_streams s"
proof (cases "apply_effects (cv2 P) (models P) (effects (conf P)) f")
  case (Inl e)
  then show ?thesis by (simp add: process_frame_def)
next
  case (Inr pf)
  obtain r s' where out: "output_frame P sid pf s = (r, s')"
    by (cases "output_frame P sid pf s")
  have "active_streams s' = active_streams s"
    using output_frame_active_streams [of P sid pf s] out by simp
  then show ?thesis
    using Inr out by (cases r) (simp_all add: process_frame_def)
qed

lemma process_frames_active_streams [simp]:
  "active_streams (process_frames P sid frames s) = active_streams s"
  by (induction frames arbitrary: s) simp_all

text \<open>
  Claim C1. \<open>add_stream\<close> sets \<open>frame_count\<close> to 0, and no number of processed frames
  changes it: after any list of frames the entry of the stream is the one that
  \<open>add_stream\<close> wrote, with \<open>frame_count = 0\<close>. The counter never decreases, and it never
  counts either.
\<close>

theorem frame_count_never_incremented:
  "active_streams (process_frames P sid frames (add_stream now sid i outs s)) sid
     = Some \<lparr>input = i, outputs = outs, start_time = now, frame_count = 0\<rparr>"
  by (simp add: add_stream_def)

text \<open>
  Claim C7. \<open>add_stream\<close> writes the registry entry and nothing else: the attributes
  that hold the sink processes and the events are as before. A stream registered with an
  HLS output, fed one frame and registered again under the same id without outputs still
  has its ffmpeg process: no close, terminate, wait or kill has happened.
\<close>

theorem readd_keeps_old_sink_process:
  "attrs (add_stream now sid i outs s) = attrs s
   \<and> events (add_stream now sid i outs s) = events s
   \<and> (let s1 = process_frame P0 ''s1'' (px_frame (1, 2, 3))
                  (add_stream 0 ''s1'' rtmp_in [out_of ''hls''] s_init);
           s2 = add_stream 1 ''s1'' rtmp_in [] s1
       in attrs s2 (hls_attr ''s1'') = Some (hls_cmd P0 ''s1'' (px_frame (1, 2, 3)))
          \<and> events s2 = [Makedirs ''output/s1/hls'', Popen (hls_cmd P0 ''s1'' (px_frame (1, 2, 3))),
                          StdinWrite (hls_attr ''s1'') (px_frame (1, 2, 3))])"
  by (simp add: add_stream_def process_frame_def apply_effects_def P0_def default_config_def
        default_effects_def output_frame_def out_of_def output_one_def output_hls_def
        pipe_to_ffmpeg_def os_quiet_def s_init_def emit_def hls_attr_def Let_def)

subsection \<open>Statistics\<close>

text \<open>
  Claim C8. For an id that is not registered \<open>get_stream_stats\<close> returns \<open>None\<close>; for a
  registered one it returns the duration \<open>now - start_time\<close>, the frame count, the
  quotient of the two as fps (0 when the duration is not positive), the type of the input
  and the types of the outputs. In both cases the processor is left as it was.
\<close>

theorem get_stream_stats_spec:
  "(active_streams s sid = None \<longrightarrow> get_stream_stats now sid s = (None, s))
   \<and> (\<forall>st. active_streams s sid = Some st \<longrightarrow>
        (\<exists>r. get_stream_stats now sid s = (Some r, s)
           \<and> stats_duration r = now - start_time st
           \<and> stats_frame_count r = frame_count st
           \<and> stats_fps r = (if now - start_time st \<le> 0 then 0
                             else real_of_int (frame_count st) / (now - start_time st))
           \<and> stats_input_type r = input_type (input st)
           \<and> stats_output_types r = map output_type (outputs st)))"
  by (auto simp: get_stream_stats_def Let_def)

theorem get_stream_stats_spec_witness:
  "active_streams s_counted ''gone'' = None
   \<and> get_stream_stats 110 ''gone'' s_counted = (None, s_counted)
   \<and> active_streams s_counted ''cam'' \<noteq> None
   \<and> (\<exists>r. get_stream_stats 110 ''cam'' s_counted = (Some r, s_counted)
         \<and> stats_duration r = 10 \<and> stats_frame_count r = 30 \<and> stats_fps r = 3
         \<and> stats_input_type r = ''rtmp'' \<and> stats_output_types r = [''webrtc'', ''hls''])
   \<and> (\<exists>r. get_stream_stats 100 ''cam'' s_counted = (Some r, s_counted) \<and> stats_fps r = 0)"
proof -
  have absent: "active_streams s_counted ''gone'' = None"
    by (simp add: s_counted_def)
  have present: "active_streams s_counted ''cam'' = Some \<lparr>input = rtmp_in,
       outputs = [out_of ''webrtc'', out_of ''hls''], start_time = 100, frame_count = 30\<rparr>"
    by (simp add: s_counted_def)
  from get_stream_stats_spec [of s_counted "''gone''" 110] absent
  have a: "get_stream_stats 110 ''gone'' s_counted = (None, s_counted)" by blast
  from get_stream_stats_spec [of s_counted "''cam''" 110] present
  have b: "\<exists>r. get_stream_stats 110 ''cam'' s_counted = (Some r, s_counted)
         \<and> stats_duration r = 10 \<and> stats_frame_count r = 30 \<and> stats_fps r = 3
         \<and> stats_input_type r = ''rtmp'' \<and> stats_output_types r = [''webrtc'', ''hls'']"
    by (simp add: rtmp_in_def out_of_def)
  from get_stream_stats_spec [of s_counted "''cam''" 100] present
  have c: "\<exists>r. get_stream_stats 100 ''cam'' s_counted = (Some r, s_counted) \<and> stats_fps r = 0"
    by auto
  from absent present a b c show ?thesis by simp
qed

subsection \<open>A stage that raises\<close>

text \<open>
  Claim C5, as stated, fails. With blur enabled and a blur that raises, \<open>apply_effects\<close>
  raises; \<open>process_frame\<close> logs and delivers nothing, where the claim has the frame go on
  with the blur skipped and reach the WebRTC sink.
\<close>

theorem stage_failure_counterexample:
  "apply_effects cv_blur_raises Map.empty blur_on (px_frame (1, 2, 3)) = Inl CvError
   \<and> events (process_frame P_blur ''s1'' (px_frame (1, 2, 3)) s_webrtc)
        = [LogError ''Error processing frame'']
   \<and> events (process_frame_recovering P_blur ''s1'' (px_frame (1, 2, 3)) s_webrtc)
        = [SendWebRTC ''s1'' []]
   \<and> process_frame P_blur ''s1'' (px_frame (1, 2, 3)) s_webrtc
        \<noteq> process_frame_recovering P_blur ''s1'' (px_frame (1, 2, 3)) s_webrtc"
proof -
  have a: "apply_effects cv_blur_raises Map.empty blur_on (px_frame (1, 2, 3)) = Inl CvError"
    by (simp add: apply_effects_def blur_on_def default_effects_def cv_blur_raises_def
          cv_plain_def)
  have b: "events (process_frame P_blur ''s1'' (px_frame (1, 2, 3)) s_webrtc)
        = [LogError ''Error processing frame'']"
    using a by (simp add: process_frame_def P_blur_def P0_def s_webrtc_def add_stream_def
          s_init_def)
  have c: "events (process_frame_recovering P_blur ''s1'' (px_frame (1, 2, 3)) s_webrtc)
        = [SendWebRTC ''s1'' []]"
    by (simp add: process_frame_recovering_def P_blur_def P0_def s_webrtc_def add_stream_def
          s_init_def stage_order_def blur_on_def default_effects_def default_config_def
          cv_blur_raises_def cv_plain_def output_frame_def out_of_def output_one_def
          output_webrtc_def)
  from b c have "process_frame P_blur ''s1'' (px_frame (1, 2, 3)) s_webrtc
        \<noteq> process_frame_recovering P_blur ''s1'' (px_frame (1, 2, 3)) s_webrtc"
    by auto
  with a b c show ?thesis by simp
qed

text \<open>
  Claim C5, amended. An exception raised inside the blur, edge detection or colour filter
  stage is not caught inside the chain: it ends \<open>apply_effects\<close>; \<open>process_frame\<close>
  catches it, logs, and drops the frame, leaving registry and sink processes as they
  were and delivering nothing. The enhancement stage cannot fail the chain: when the
  network raises, \<open>apply_ml_enhancement\<close> returns the frame it was given.
\<close>

theorem stage_failure_handling:
  "(stage_enabled ms ec st \<and> st \<noteq> Enhancement
      \<and> run_chain cv ms ec (filter (stage_enabled ms ec) (takeWhile (\<lambda>x. x \<noteq> st) stage_order)) frame = Inr g
      \<and> run_stage cv ms ec st g = Inl e
      \<longrightarrow> apply_effects cv ms ec frame = Inl e)
   \<and> (apply_effects (cv2 P) (models P) (effects (conf P)) frame = Inl e
      \<longrightarrow> process_frame P sid frame s = emit [LogError ''Error processing frame''] s)
   \<and> (ms ''enhancement'' = Some net \<and> net frame = Inl e \<longrightarrow> apply_ml_enhancement ms frame = frame)
   \<and> run_stage cv ms ec Enhancement frame = Inr (apply_ml_enhancement ms frame)"
proof -
  have 1: "stage_enabled ms ec st \<and> st \<noteq> Enhancement
      \<and> run_chain cv ms ec (filter (stage_enabled ms ec) (takeWhile (\<lambda>x. x \<noteq> st) stage_order)) frame = Inr g
      \<and> run_stage cv ms ec st g = Inl e
      \<longrightarrow> apply_effects cv ms ec frame = Inl e"
    by (cases st; cases "blur_enabled ec"; cases "edge_detection_enabled ec")
       (auto simp: apply_effects_chain stage_order_def split: sum.splits)
  have 2: "apply_effects (cv2 P) (models P) (effects (conf P)) frame = Inl e
      \<longrightarrow> process_frame P sid frame s = emit [LogError ''Error processing frame''] s"
    by (simp add: process_frame_def)
  have 3: "ms ''enhancement'' = Some net \<and> net frame = Inl e \<longrightarrow> apply_ml_enhancement ms frame = frame"
    by (simp add: apply_ml_enhancement_def)
  show ?thesis using 1 2 3 by simp
qed

theorem stage_failure_handling_witness:
  "stage_enabled Map.empty blur_on Blur \<and> Blur \<noteq> Enhancement
   \<and> run_chain cv_blur_raises Map.empty blur_on
        (filter (stage_enabled Map.empty blur_on) (takeWhile (\<lambda>x. x \<noteq> Blur) stage_order))
        (px_frame (1, 2, 3)) = Inr (px_frame (1, 2, 3))
   \<and> run_stage cv_blur_raises Map.empty blur_on Blur (px_frame (1, 2, 3)) = Inl CvError
   \<and> apply_effects cv_blur_raises Map.empty blur_on (px_frame (1, 2, 3)) = Inl CvError
   \<and> apply_effects (cv2 P_blur) (models P_blur) (effects (conf P_blur)) (px_frame (1, 2, 3)) = Inl CvError
   \<and> process_frame P_blur ''s1'' (px_frame (1, 2, 3)) s_webrtc
        = emit [LogError ''Error processing frame''] s_webrtc
   \<and> net_raises ''enhancement'' = Some (\<lambda>f. Inl TorchError)
   \<and> apply_ml_enhancement net_raises (px_frame (1, 2, 3)) = px_frame (1, 2, 3)"
proof -
  have h1: "stage_enabled Map.empty blur_on Blur \<and> Blur \<noteq> Enhancement
   \<and> run_chain cv_blur_raises Map.empty blur_on
        (filter (stage_enabled Map.empty blur_on) (takeWhile (\<lambda>x. x \<noteq> Blur) stage_order))
        (px_frame (1, 2, 3)) = Inr (px_frame (1, 2, 3))
   \<and> run_stage cv_blur_raises Map.empty blur_on Blur (px_frame (1, 2, 3)) = Inl CvError"
    by (simp add: blur_on_def default_effects_def stage_order_def cv_blur_raises_def cv_plain_def)
  have pb: "cv2 P_blur = cv_blur_raises" "models P_blur = Map.empty" "effects (conf P_blur) = blur_on"
    by (simp_all add: P_blur_def P0_def)
  have h3: "net_raises ''enhancement'' = Some (\<lambda>f. Inl TorchError)
      \<and> (\<lambda>f::frame. (Inl TorchError :: error + frame)) (px_frame (1, 2, 3)) = Inl TorchError"
    by (simp add: net_raises_def)
  note t = stage_failure_handling [of Map.empty blur_on Blur cv_blur_raises "px_frame (1, 2, 3)"
      "px_frame (1, 2, 3)" CvError P_blur "''s1''" s_webrtc ]
  note t' = stage_failure_handling [of net_raises _ _ _ "px_frame (1, 2, 3)" _ TorchError _ _ _
      "\<lambda>f. Inl TorchError"]
  from t h1 have a: "apply_effects cv_blur_raises Map.empty blur_on (px_frame (1, 2, 3)) = Inl CvError"
    by blast
  from t a pb have b: "process_frame P_blur ''s1'' (px_frame (1, 2, 3)) s_webrtc
        = emit [LogError ''Error processing frame''] s_webrtc"
    by simp
  from t' h3 have c: "apply_ml_enhancement net_raises (px_frame (1, 2, 3)) = px_frame (1, 2, 3)"
    by blast
  from h1 a b c h3 pb show ?thesis by simp
qed

subsection \<open>Removing a stream\<close>

lemma attr_distinct [simp]: "hls_attr a \<noteq> dash_attr b" "dash_attr b \<noteq> hls_attr a"
  by (simp_all add: hls_attr_def dash_attr_def)

lemma teardown_fields:
  "active_streams (teardown P s a) = active_streams s"
  "attrs (teardown P s a) = (attrs s)(a := None)"
  "events (teardown P s a) = events s @ sink_teardown P s a"
  by (auto simp: teardown_def sink_teardown_def graceful_teardown_def Let_def)

lemma remove_stream_absent: "active_streams s sid = None \<Longrightarrow> remove_stream P sid s = s"
  by (simp add: remove_stream_def)

lemma remove_stream_present:
  assumes "active_streams s sid \<noteq> None"
  shows "active_streams (remove_stream P sid s) = (active_streams s)(sid := None)"
    and "attrs (remove_stream P sid s) = (attrs s)(hls_attr sid := None, dash_attr sid := None)"
    and "events (remove_stream P sid s)
           = events s @ sink_teardown P s (hls_attr sid) @ sink_teardown P s (dash_attr sid)"
  using assms
  by (simp_all add: remove_stream_def teardown_fields sink_teardown_def)

lemma remove_stream_erases [simp]: "active_streams (remove_stream P sid s) sid = None"
  by (cases "active_streams s sid = None")
     (simp_all add: remove_stream_absent remove_stream_present)




subsection \<open>Fan-out to the sinks\<close>

lemma delivered_append:
  "delivered P sid f (xs @ ys) oc = (delivered P sid f xs oc \<or> delivered P sid f ys oc)"
  by (auto simp: delivered_def split: sum.splits)

lemma delivered_Nil [simp]: "\<not> delivered P sid f [] oc"
  by (simp add: delivered_def split: sum.splits)

lemma pipe_to_ffmpeg_step_ex:
  assumes "\<not> makedirs_raises (os P) path"
  shows "\<exists>new s'. pipe_to_ffmpeg P path cmd a msg f s = (None, s')
     \<and> active_streams s' = active_streams s
     \<and> events s' = events s @ new
     \<and> (\<forall>b. b \<noteq> a \<longrightarrow> attrs s' b = attrs s b)
     \<and> ((attrs s' a \<noteq> None) = (attrs s a \<noteq> None \<or> \<not> popen_raises (os P) cmd))
     \<and> (\<forall>ev \<in> set new. ev = Makedirs path \<or> ev = Popen cmd \<or> ev = LogError msg \<or> ev = StdinWrite a f)
     \<and> ((StdinWrite a f \<in> set new)
          = ((attrs s a \<noteq> None \<or> \<not> popen_raises (os P) cmd) \<and> \<not> write_raises (os P) a f))"
  using assms by (auto simp: pipe_to_ffmpeg_def Let_def emit_def)

lemma pipe_to_ffmpeg_step:
  assumes "\<not> makedirs_raises (os P) path"
  obtains new s' where "pipe_to_ffmpeg P path cmd a msg f s = (None, s')"
    and "active_streams s' = active_streams s"
    and "events s' = events s @ new"
    and "\<forall>b. b \<noteq> a \<longrightarrow> attrs s' b = attrs s b"
    and "(attrs s' a \<noteq> None) = (attrs s a \<noteq> None \<or> \<not> popen_raises (os P) cmd)"
    and "\<forall>ev \<in> set new. ev = Makedirs path \<or> ev = Popen cmd \<or> ev = LogError msg \<or> ev = StdinWrite a f"
    and "(StdinWrite a f \<in> set new)
          = ((attrs s a \<noteq> None \<or> \<not> popen_raises (os P) cmd) \<and> \<not> write_raises (os P) a f)"
  using pipe_to_ffmpeg_step_ex [OF assms, of cmd a msg f s]
  by (elim exE conjE) (rule that; assumption)

lemma output_one_step:
  assumes "\<forall>path. \<not> makedirs_raises (os P) path"
  shows "\<exists>new s'. output_one P sid f oc s = (None, s')
     \<and> active_streams s' = active_streams s
     \<and> events s' = events s @ new
     \<and> (\<forall>oc'. sink_accepts P sid f s' oc' = sink_accepts P sid f s oc')
     \<and> (\<forall>oc'. delivered P sid f new oc'
            = (output_type oc' = output_type oc \<and> sink_accepts P sid f s oc'))"
proof -
  consider (webrtc) "output_type oc = ''webrtc''"
    | (hls) "output_type oc = ''hls''"
    | (dash) "output_type oc = ''dash''"
    | (other) "output_type oc \<noteq> ''webrtc''" "output_type oc \<noteq> ''hls''" "output_type oc \<noteq> ''dash''"
    by blast
  then show ?thesis
  proof cases
    case webrtc
    show ?thesis
    proof (cases "imencode_jpg (cv2 P) f")
      case (Inl e)
      then show ?thesis using webrtc
        by (auto simp: output_one_def output_webrtc_def sink_accepts_def delivered_def emit_def)
    next
      case (Inr payload)
      then show ?thesis using webrtc
        by (auto simp: output_one_def output_webrtc_def sink_accepts_def delivered_def emit_def)
    qed
  next
    case hls
    from assms have "\<not> makedirs_raises (os P) (''output/'' @ sid @ ''/hls'')" by blast
    then obtain new s' where st: "pipe_to_ffmpeg P (''output/'' @ sid @ ''/hls'') (hls_cmd P sid f)
         (hls_attr sid) ''HLS output error'' f s = (None, s')"
      "active_streams s' = active_streams s" "events s' = events s @ new"
      "\<forall>b. b \<noteq> hls_attr sid \<longrightarrow> attrs s' b = attrs s b"
      "(attrs s' (hls_attr sid) \<noteq> None)
         = (attrs s (hls_attr sid) \<noteq> None \<or> \<not> popen_raises (os P) (hls_cmd P sid f))"
      "\<forall>ev \<in> set new. ev = Makedirs (''output/'' @ sid @ ''/hls'') \<or> ev = Popen (hls_cmd P sid f)
          \<or> ev = LogError ''HLS output error'' \<or> ev = StdinWrite (hls_attr sid) f"
      "(StdinWrite (hls_attr sid) f \<in> set new)
          = ((attrs s (hls_attr sid) \<noteq> None \<or> \<not> popen_raises (os P) (hls_cmd P sid f))
               \<and> \<not> write_raises (os P) (hls_attr sid) f)"
      by (rule pipe_to_ffmpeg_step)
    have one: "output_one P sid f oc s = (None, s')"
      using hls st(1) by (simp add: output_one_def output_hls_def)
    have dash_same: "attrs s' (dash_attr sid) = attrs s (dash_attr sid)"
      using st(4) by simp
    have acc: "\<forall>oc'. sink_accepts P sid f s' oc' = sink_accepts P sid f s oc'"
      using st(5) dash_same by (auto simp: sink_accepts_def)
    have nodash: "StdinWrite (dash_attr sid) f \<notin> set new"
      using st(6) by fastforce
    have nosend: "\<And>p. SendWebRTC sid p \<notin> set new"
      using st(6) by fastforce
    have del: "\<forall>oc'. delivered P sid f new oc'
            = (output_type oc' = output_type oc \<and> sink_accepts P sid f s oc')"
      using hls st(7) nodash nosend
      by (auto simp: delivered_def sink_accepts_def split: sum.splits)
    show ?thesis using one st(2,3) acc del by blast
  next
    case dash
    from assms have "\<not> makedirs_raises (os P) (''output/'' @ sid @ ''/dash'')" by blast
    then obtain new s' where st: "pipe_to_ffmpeg P (''output/'' @ sid @ ''/dash'') (dash_cmd P sid f)
         (dash_attr sid) ''DASH output error'' f s = (None, s')"
      "active_streams s' = active_streams s" "events s' = events s @ new"
      "\<forall>b. b \<noteq> dash_attr sid \<longrightarrow> attrs s' b = attrs s b"
      "(attrs s' (dash_attr sid) \<noteq> None)
         = (attrs s (dash_attr sid) \<noteq> None \<or> \<not> popen_raises (os P) (dash_cmd P sid f))"
      "\<forall>ev \<in> set new. ev = Makedirs (''output/'' @ sid @ ''/dash'') \<or> ev = Popen (dash_cmd P sid f)
          \<or> ev = LogError ''DASH output error'' \<or> ev = StdinWrite (dash_attr sid) f"
      "(StdinWrite (dash_attr sid) f \<in> set new)
          = ((attrs s (dash_attr sid) \<noteq> None \<or> \<not> popen_raises (os P) (dash_cmd P sid f))
               \<and> \<not> write_raises (os P) (dash_attr sid) f)"
      by (rule pipe_to_ffmpeg_step)
    have one: "output_one P sid f oc s = (None, s')"
      using dash st(1) by (simp add: output_one_def output_dash_def)
    have hls_same: "attrs s' (hls_attr sid) = attrs s (hls_attr sid)"
      using st(4) by simp
    have acc: "\<forall>oc'. sink_accepts P sid f s' oc' = sink_accepts P sid f s oc'"
      using st(5) hls_same by (auto simp: sink_accepts_def)
    have nohls: "StdinWrite (hls_attr sid) f \<notin> set new"
      using st(6) by fastforce
    have nosend: "\<And>p. SendWebRTC sid p \<notin> set new"
      using st(6) by fastforce
    have del: "\<forall>oc'. delivered P sid f new oc'
            = (output_type oc' = output_type oc \<and> sink_accepts P sid f s oc')"
      using dash st(7) nohls nosend
      by (auto simp: delivered_def sink_accepts_def split: sum.splits)
    show ?thesis using one st(2,3) acc del by blast
  next
    case other
    have "output_one P sid f oc s = (None, s)"
      using other by (simp add: output_one_def)
    moreover have "\<forall>oc'. delivered P sid f [] oc'
            = (output_type oc' = output_type oc \<and> sink_accepts P sid f s oc')"
      using other by (auto simp: sink_accepts_def)
    ultimately show ?thesis
      by (intro exI [of _ "[]"] exI [of _ s]) simp
  qed
qed

lemma output_loop_delivery:
  assumes "\<forall>path. \<not> makedirs_raises (os P) path"
  shows "\<exists>new s'. output_loop P sid f ocs s = (None, s')
     \<and> active_streams s' = active_streams s
     \<and> events s' = events s @ new
     \<and> (\<forall>oc'. sink_accepts P sid f s' oc' = sink_accepts P sid f s oc')
     \<and> (\<forall>oc'. delivered P sid f new oc'
            = (output_type oc' \<in> output_type ` set ocs \<and> sink_accepts P sid f s oc'))"
proof (induction ocs arbitrary: s)
  case Nil
  show ?case by (intro exI [of _ "[]"] exI [of _ s]) simp
next
  case (Cons oc ocs)
  from output_one_step [OF assms, of sid f oc s]
  obtain new1 s1 where one: "output_one P sid f oc s = (None, s1)"
    "active_streams s1 = active_streams s" "events s1 = events s @ new1"
    "\<forall>oc'. sink_accepts P sid f s1 oc' = sink_accepts P sid f s oc'"
    "\<forall>oc'. delivered P sid f new1 oc'
            = (output_type oc' = output_type oc \<and> sink_accepts P sid f s oc')"
    by blast
  from Cons.IH [of s1]
  obtain new2 s2 where rest: "output_loop P sid f ocs s1 = (None, s2)"
    "active_streams s2 = active_streams s1" "events s2 = events s1 @ new2"
    "\<forall>oc'. sink_accepts P sid f s2 oc' = sink_accepts P sid f s1 oc'"
    "\<forall>oc'. delivered P sid f new2 oc'
            = (output_type oc' \<in> output_type ` set ocs \<and> sink_accepts P sid f s1 oc')"
    by blast
  have loop: "output_loop P sid f (oc # ocs) s = (None, s2)"
    using one(1) rest(1) by simp
  have ev: "events s2 = events s @ (new1 @ new2)"
    using one(3) rest(3) by simp
  have del: "\<forall>oc'. delivered P sid f (new1 @ new2) oc'
            = (output_type oc' \<in> output_type ` set (oc # ocs) \<and> sink_accepts P sid f s oc')"
    using one(4,5) rest(5) by (auto simp: delivered_append)
  show ?case
    using loop one(2) rest(2) ev one(4) rest(4) del by (intro exI [of _ "new1 @ new2"] exI [of _ s2]) simp
qed

text \<open>
  Where \<open>os.makedirs\<close> does not raise, the fan-out is isolated: exceptions of the start
  of a process, of a write and of the JPEG encoding are caught inside the sink, so
  \<open>output_frame\<close> runs through all outputs of the stream and returns normally, the
  registry is unchanged, and each sink has the frame delivered exactly when its own
  calls succeed, whatever happens at the other sinks.
\<close>

lemma fanout_isolated_without_makedirs_failure:
  assumes "\<forall>path. \<not> makedirs_raises (os P) path"
    and "active_streams s sid = Some st"
  shows "\<exists>new s'. output_frame P sid frame s = (None, s')
     \<and> active_streams s' = active_streams s
     \<and> events s' = events s @ new
     \<and> (\<forall>oc \<in> set (outputs st). delivered P sid frame new oc = sink_accepts P sid frame s oc)"
proof -
  from output_loop_delivery [OF assms(1), of sid frame "outputs st" s]
  obtain new s' where l: "output_loop P sid frame (outputs st) s = (None, s')"
    "active_streams s' = active_streams s" "events s' = events s @ new"
    "\<forall>oc'. delivered P sid frame new oc'
            = (output_type oc' \<in> output_type ` set (outputs st) \<and> sink_accepts P sid frame s oc')"
    by blast
  have "output_frame P sid frame s = (None, s')"
    using assms(2) l(1) by (simp add: output_frame_def)
  moreover have "\<forall>oc \<in> set (outputs st). delivered P sid frame new oc = sink_accepts P sid frame s oc"
    using l(4) by auto
  ultimately show ?thesis using l(2,3) by blast
qed

lemma fanout_isolated_example:
  "(\<forall>path. \<not> makedirs_raises (os P_hls_down) path)
   \<and> active_streams s_three ''s1'' \<noteq> None
   \<and> (\<exists>new s'. output_frame P_hls_down ''s1'' (px_frame (1, 2, 3)) s_three = (None, s')
        \<and> active_streams s' = active_streams s_three
        \<and> events s' = events s_three @ new
        \<and> \<not> delivered P_hls_down ''s1'' (px_frame (1, 2, 3)) new (out_of ''hls'')
        \<and> delivered P_hls_down ''s1'' (px_frame (1, 2, 3)) new (out_of ''webrtc'')
        \<and> delivered P_hls_down ''s1'' (px_frame (1, 2, 3)) new (out_of ''dash''))"
proof -
  let ?outs = "[out_of ''hls'', out_of ''webrtc'', out_of ''dash'']"
  let ?st = "\<lparr>input = rtmp_in, outputs = ?outs, start_time = 0, frame_count = 0\<rparr>"
  have quiet: "\<forall>path. \<not> makedirs_raises (os P_hls_down) path"
    by (simp add: P_hls_down_def P0_def os_quiet_def)
  have reg: "active_streams s_three ''s1'' = Some ?st"
    by (simp add: s_three_def add_stream_def)
  have acc: "\<not> sink_accepts P_hls_down ''s1'' (px_frame (1, 2, 3)) s_three (out_of ''hls'')"
    "sink_accepts P_hls_down ''s1'' (px_frame (1, 2, 3)) s_three (out_of ''webrtc'')"
    "sink_accepts P_hls_down ''s1'' (px_frame (1, 2, 3)) s_three (out_of ''dash'')"
    by (simp_all add: sink_accepts_def out_of_def P_hls_down_def P0_def os_quiet_def
          s_three_def add_stream_def s_init_def hls_cmd_def dash_cmd_def cv_plain_def)
  from fanout_isolated_without_makedirs_failure [OF quiet reg, of "px_frame (1, 2, 3)"]
  obtain new s' where r: "output_frame P_hls_down ''s1'' (px_frame (1, 2, 3)) s_three = (None, s')"
    "active_streams s' = active_streams s_three" "events s' = events s_three @ new"
    "\<forall>oc \<in> set (outputs ?st).
        delivered P_hls_down ''s1'' (px_frame (1, 2, 3)) new oc
          = sink_accepts P_hls_down ''s1'' (px_frame (1, 2, 3)) s_three oc"
    by (elim exE conjE)
  from r(4) acc have
    "\<not> delivered P_hls_down ''s1'' (px_frame (1, 2, 3)) new (out_of ''hls'')
        \<and> delivered P_hls_down ''s1'' (px_frame (1, 2, 3)) new (out_of ''webrtc'')
        \<and> delivered P_hls_down ''s1'' (px_frame (1, 2, 3)) new (out_of ''dash'')"
    by simp
  with quiet reg r(1,2,3) show ?thesis by auto
qed

text \<open>
  Claim C3. A failure of one sink is not always caught inside the sink. \<open>os.makedirs\<close>
  stands before the \<open>try\<close> of \<open>output_hls\<close> and of \<open>output_dash\<close>, and \<open>output_frame\<close> has
  no \<open>try\<close>. For a stream with the outputs HLS, WebRTC and DASH whose HLS directory
  cannot be created, while the JPEG encoding and the start of and the write to the DASH
  process would all succeed, \<open>output_frame\<close> raises at the first output: nothing is
  handed to WebRTC, no DASH process is started, and \<open>process_frame\<close> only logs. With
  the directory in place the same frame reaches all three sinks. The registry is
  unchanged in both cases.
\<close>

theorem makedirs_failure_cancels_fanout:
  "imencode_jpg (cv2 P_no_dirs) (px_frame (1, 2, 3)) = Inr []
   \<and> \<not> makedirs_raises (os P_no_dirs) ''output/s1/dash''
   \<and> \<not> popen_raises (os P_no_dirs) (dash_cmd P_no_dirs ''s1'' (px_frame (1, 2, 3)))
   \<and> \<not> write_raises (os P_no_dirs) (dash_attr ''s1'') (px_frame (1, 2, 3))
   \<and> output_frame P_no_dirs ''s1'' (px_frame (1, 2, 3)) s_three = (Some OSError, s_three)
   \<and> process_frame P_no_dirs ''s1'' (px_frame (1, 2, 3)) s_three
        = emit [LogError ''Error processing frame''] s_three
   \<and> events (process_frame P_no_dirs ''s1'' (px_frame (1, 2, 3)) s_three)
        = [LogError ''Error processing frame'']
   \<and> attrs (process_frame P_no_dirs ''s1'' (px_frame (1, 2, 3)) s_three) (dash_attr ''s1'') = None
   \<and> events (process_frame P0 ''s1'' (px_frame (1, 2, 3)) s_three)
        = [Makedirs ''output/s1/hls'', Popen (hls_cmd P0 ''s1'' (px_frame (1, 2, 3))),
           StdinWrite (hls_attr ''s1'') (px_frame (1, 2, 3)),
           SendWebRTC ''s1'' [],
           Makedirs ''output/s1/dash'', Popen (dash_cmd P0 ''s1'' (px_frame (1, 2, 3))),
           StdinWrite (dash_attr ''s1'') (px_frame (1, 2, 3))]
   \<and> active_streams (process_frame P_no_dirs ''s1'' (px_frame (1, 2, 3)) s_three)
        = active_streams s_three"
proof -
  have world: "imencode_jpg (cv2 P_no_dirs) (px_frame (1, 2, 3)) = Inr []"
    "\<not> makedirs_raises (os P_no_dirs) ''output/s1/dash''"
    "\<not> popen_raises (os P_no_dirs) (dash_cmd P_no_dirs ''s1'' (px_frame (1, 2, 3)))"
    "\<not> write_raises (os P_no_dirs) (dash_attr ''s1'') (px_frame (1, 2, 3))"
    by (simp_all add: P_no_dirs_def P0_def os_quiet_def cv_plain_def)
  have chain: "apply_effects (cv2 P_no_dirs) (models P_no_dirs) (effects (conf P_no_dirs))
                 (px_frame (1, 2, 3)) = Inr (px_frame (1, 2, 3))"
    by (simp add: apply_effects_def P_no_dirs_def P0_def default_config_def default_effects_def)
  have out: "output_frame P_no_dirs ''s1'' (px_frame (1, 2, 3)) s_three = (Some OSError, s_three)"
    by (simp add: output_frame_def s_three_def add_stream_def out_of_def output_one_def
          output_hls_def pipe_to_ffmpeg_def P_no_dirs_def P0_def os_quiet_def)
  have frame: "process_frame P_no_dirs ''s1'' (px_frame (1, 2, 3)) s_three
        = emit [LogError ''Error processing frame''] s_three"
    using chain out by (simp add: process_frame_def)
  have ev: "events (process_frame P_no_dirs ''s1'' (px_frame (1, 2, 3)) s_three)
        = [LogError ''Error processing frame'']"
    and at: "attrs (process_frame P_no_dirs ''s1'' (px_frame (1, 2, 3)) s_three) (dash_attr ''s1'')
        = None"
    unfolding frame by (simp_all add: s_three_def add_stream_def s_init_def)
  have good: "events (process_frame P0 ''s1'' (px_frame (1, 2, 3)) s_three)
        = [Makedirs ''output/s1/hls'', Popen (hls_cmd P0 ''s1'' (px_frame (1, 2, 3))),
           StdinWrite (hls_attr ''s1'') (px_frame (1, 2, 3)),
           SendWebRTC ''s1'' [],
           Makedirs ''output/s1/dash'', Popen (dash_cmd P0 ''s1'' (px_frame (1, 2, 3))),
           StdinWrite (dash_attr ''s1'') (px_frame (1, 2, 3))]"
    by (simp add: s_three_def add_stream_def process_frame_def apply_effects_def P0_def
          default_config_def default_effects_def output_frame_def out_of_def output_one_def
          output_hls_def output_dash_def output_webrtc_def pipe_to_ffmpeg_def os_quiet_def
          s_init_def emit_def hls_attr_def dash_attr_def cv_plain_def Let_def)
  have reg: "active_streams (process_frame P_no_dirs ''s1'' (px_frame (1, 2, 3)) s_three)
        = active_streams s_three"
    by simp
  from world out frame ev at good reg show ?thesis
    by simp
qed

subsection \<open>The pull loop\<close>

text \<open>
  Claim C6, as stated, fails. A registered stream whose capture runs out of frames is
  still registered when \<open>process_with_opencv\<close> has returned: the loop ends and the capture
  is released, nothing more. And a capture that cannot be opened leaves the registration
  of the stream in place.
\<close>

theorem pull_loop_counterexample:
  "active_streams (process_with_opencv P_cam ''rtmp://cam'' ''s1'' [] s_webrtc) ''s1'' \<noteq> None
   \<and> events (process_with_opencv P_cam ''rtmp://cam'' ''s1'' [] s_webrtc)
        = [CaptureRead ''rtmp://cam'', SendWebRTC ''s1'' [],
           CaptureRead ''rtmp://cam'', SendWebRTC ''s1'' [],
           CaptureRead ''rtmp://cam'', CaptureRelease ''rtmp://cam'']
   \<and> active_streams (process_with_opencv P_cam ''rtmp://nowhere'' ''s1'' [] s_webrtc) ''s1'' \<noteq> None"
  by (simp add: process_with_opencv_def P_cam_def P0_def os_quiet_def s_webrtc_def
        add_stream_def s_init_def process_frame_def apply_effects_def default_config_def
        default_effects_def output_frame_def out_of_def output_one_def output_webrtc_def
        cv_plain_def emit_def Let_def)

lemma read_and_process_active_streams [simp]:
  "active_streams (read_and_process P url sid f s) = active_streams s"
  by (simp add: read_and_process_def)

lemma fold_read_and_process_active_streams [simp]:
  "active_streams (fold (read_and_process P url sid) frames s) = active_streams s"
  by (induction frames arbitrary: s) simp_all

lemma read_loop_turn_alone:
  "active_streams s sid \<noteq> None \<Longrightarrow>
   read_loop P url sid (f # fs) [] s = read_loop P url sid fs [] (read_and_process P url sid f s)"
  by (auto simp: read_and_process_def Let_def)

lemma read_loop_turn_id:
  "active_streams s sid \<noteq> None \<Longrightarrow>
   read_loop P url sid (f # fs) ((\<lambda>s. s) # others) s
     = read_loop P url sid fs others (read_and_process P url sid f s)"
  by (auto simp: read_and_process_def Let_def)

lemma read_loop_turn_removed:
  "read_loop P url sid (f # fs) (remove_stream P sid # others) s
     = emit [CaptureRelease url] (remove_stream P sid (read_and_process P url sid f s))"
  by (simp add: read_and_process_def)

lemma read_loop_quiet:
  "active_streams s sid \<noteq> None \<Longrightarrow>
   read_loop P url sid frames [] s
     = emit [CaptureRead url, CaptureRelease url] (fold (read_and_process P url sid) frames s)"
proof (induction frames arbitrary: s)
  case Nil
  show ?case by simp
next
  case (Cons f fs)
  have "active_streams (read_and_process P url sid f s) sid \<noteq> None"
    using Cons.prems by simp
  from Cons.IH [OF this] Cons.prems show ?case
    by (simp add: read_loop_turn_alone del: read_loop.simps)
qed

lemma read_loop_active_streams:
  "active_streams (read_loop P url sid frames [] s) = active_streams s"
proof (induction frames arbitrary: s)
  case Nil
  show ?case by simp
next
  case (Cons f fs)
  show ?case
    using Cons.IH [of "process_frame P sid f (emit [CaptureRead url] s)"]
    by (simp add: Let_def)
qed

lemma read_loop_undisturbed_prefix:
  "active_streams s sid \<noteq> None \<Longrightarrow>
   read_loop P url sid (pre @ rest) (replicate (length pre) (\<lambda>s. s) @ others) s
     = read_loop P url sid rest others (fold (read_and_process P url sid) pre s)"
proof (induction pre arbitrary: s)
  case Nil
  show ?case by simp
next
  case (Cons f fs)
  have "active_streams (read_and_process P url sid f s) sid \<noteq> None"
    using Cons.prems by simp
  note IH = Cons.IH [OF this]
  have "read_loop P url sid ((f # fs) @ rest) (replicate (length (f # fs)) (\<lambda>s. s) @ others) s
      = read_loop P url sid (f # (fs @ rest)) ((\<lambda>s. s) # (replicate (length fs) (\<lambda>s. s) @ others)) s"
    by (simp del: read_loop.simps)
  also have "\<dots> = read_loop P url sid (fs @ rest) (replicate (length fs) (\<lambda>s. s) @ others)
                      (read_and_process P url sid f s)"
    by (rule read_loop_turn_id [OF Cons.prems])
  also have "\<dots> = read_loop P url sid rest others
                      (fold (read_and_process P url sid) fs (read_and_process P url sid f s))"
    by (rule IH)
  finally show ?case
    by (simp del: read_loop.simps)
qed

text \<open>
  Claim C6, amended. When the capture cannot be opened, \<open>process_with_opencv\<close> logs and
  returns without reading or processing a frame. Left alone, it never changes the
  registry; for a registered stream it reads and processes every frame, meets the end of
  the source, and releases the capture. The registration is tested after every processed
  frame and before the next read: when the stream is removed while a frame is being
  processed, that frame is the last one read, and the capture is released; for a stream
  that is not registered, one frame is read and processed before the test ends the loop.
\<close>

theorem pull_loop_behaviour:
  "(video_capture (os P) url = None \<longrightarrow>
      process_with_opencv P url sid others s = emit [LogError ''Failed to open video stream''] s)
   \<and> active_streams (process_with_opencv P url sid [] s) = active_streams s
   \<and> (video_capture (os P) url = Some frames \<and> active_streams s sid \<noteq> None \<longrightarrow>
        process_with_opencv P url sid [] s
          = emit [CaptureRead url, CaptureRelease url] (fold (read_and_process P url sid) frames s))
   \<and> (video_capture (os P) url = Some (pre @ f # post) \<and> active_streams s sid \<noteq> None \<longrightarrow>
        process_with_opencv P url sid (replicate (length pre) (\<lambda>s. s) @ [remove_stream P sid]) s
          = emit [CaptureRelease url]
              (remove_stream P sid
                 (read_and_process P url sid f (fold (read_and_process P url sid) pre s))))
   \<and> (video_capture (os P) url = Some (f # post) \<and> active_streams s sid = None \<longrightarrow>
        process_with_opencv P url sid [] s
          = emit [CaptureRelease url] (read_and_process P url sid f s))"
proof -
  have 1: "video_capture (os P) url = None \<longrightarrow>
      process_with_opencv P url sid others s = emit [LogError ''Failed to open video stream''] s"
    by (simp add: process_with_opencv_def)
  have 2: "active_streams (process_with_opencv P url sid [] s) = active_streams s"
    by (simp add: process_with_opencv_def read_loop_active_streams split: option.splits)
  have 3: "video_capture (os P) url = Some frames \<and> active_streams s sid \<noteq> None \<longrightarrow>
        process_with_opencv P url sid [] s
          = emit [CaptureRead url, CaptureRelease url] (fold (read_and_process P url sid) frames s)"
    by (simp add: process_with_opencv_def read_loop_quiet)
  have 4: "video_capture (os P) url = Some (pre @ f # post) \<and> active_streams s sid \<noteq> None \<longrightarrow>
        process_with_opencv P url sid (replicate (length pre) (\<lambda>s. s) @ [remove_stream P sid]) s
          = emit [CaptureRelease url]
              (remove_stream P sid
                 (read_and_process P url sid f (fold (read_and_process P url sid) pre s)))"
    by (simp add: process_with_opencv_def read_loop_undisturbed_prefix read_loop_turn_removed
          del: read_loop.simps)
  have 5: "video_capture (os P) url = Some (f # post) \<and> active_streams s sid = None \<longrightarrow>
        process_with_opencv P url sid [] s
          = emit [CaptureRelease url] (read_and_process P url sid f s)"
    by (simp add: process_with_opencv_def read_and_process_def)
  from 1 2 3 4 5 show ?thesis by simp
qed

theorem pull_loop_behaviour_witness:
  "video_capture (os P_cam) ''rtmp://nowhere'' = None
   \<and> process_with_opencv P_cam ''rtmp://nowhere'' ''s1'' [] s_webrtc
        = emit [LogError ''Failed to open video stream''] s_webrtc
   \<and> video_capture (os P_cam) ''rtmp://cam'' = Some ([px_frame (1, 2, 3)] @ px_frame (4, 5, 6) # [])
   \<and> active_streams s_webrtc ''s1'' \<noteq> None
   \<and> active_streams (process_with_opencv P_cam ''rtmp://cam'' ''s1'' [] s_webrtc) = active_streams s_webrtc
   \<and> process_with_opencv P_cam ''rtmp://cam'' ''s1'' [] s_webrtc
        = emit [CaptureRead ''rtmp://cam'', CaptureRelease ''rtmp://cam'']
            (fold (read_and_process P_cam ''rtmp://cam'' ''s1'') [px_frame (1, 2, 3), px_frame (4, 5, 6)] s_webrtc)
   \<and> process_with_opencv P_cam ''rtmp://cam'' ''s1'' (replicate (length [px_frame (1, 2, 3)]) (\<lambda>s. s) @ [remove_stream P_cam ''s1'']) s_webrtc
        = emit [CaptureRelease ''rtmp://cam'']
            (remove_stream P_cam ''s1''
               (read_and_process P_cam ''rtmp://cam'' ''s1'' (px_frame (4, 5, 6))
                  (fold (read_and_process P_cam ''rtmp://cam'' ''s1'') [px_frame (1, 2, 3)] s_webrtc)))
   \<and> active_streams s_webrtc ''zz'' = None
   \<and> process_with_opencv P_cam ''rtmp://cam'' ''zz'' [] s_webrtc
        = emit [CaptureRelease ''rtmp://cam'']
            (read_and_process P_cam ''rtmp://cam'' ''zz'' (px_frame (1, 2, 3)) s_webrtc)"
proof -
  have closed: "video_capture (os P_cam) ''rtmp://nowhere'' = None"
    by (simp add: P_cam_def P0_def os_quiet_def)
  have opened: "video_capture (os P_cam) ''rtmp://cam''
      = Some ([px_frame (1, 2, 3)] @ px_frame (4, 5, 6) # [])"
    by (simp add: P_cam_def P0_def os_quiet_def)
  have opened': "video_capture (os P_cam) ''rtmp://cam'' = Some [px_frame (1, 2, 3), px_frame (4, 5, 6)]"
    using opened by simp
  have reg: "active_streams s_webrtc ''s1'' \<noteq> None"
    by (simp add: s_webrtc_def add_stream_def)
  note t1 = pull_loop_behaviour [of P_cam "''rtmp://nowhere''" "''s1''" "[]" s_webrtc]
  note t2 = pull_loop_behaviour [of P_cam "''rtmp://cam''" "''s1''" _ s_webrtc
      "[px_frame (1, 2, 3), px_frame (4, 5, 6)]" "[px_frame (1, 2, 3)]" "px_frame (4, 5, 6)" "[]"]
  from t1 closed have a: "process_with_opencv P_cam ''rtmp://nowhere'' ''s1'' [] s_webrtc
        = emit [LogError ''Failed to open video stream''] s_webrtc"
    by blast
  from t2 have b: "active_streams (process_with_opencv P_cam ''rtmp://cam'' ''s1'' [] s_webrtc)
      = active_streams s_webrtc"
    by blast
  from t2 opened' reg have c: "process_with_opencv P_cam ''rtmp://cam'' ''s1'' [] s_webrtc
        = emit [CaptureRead ''rtmp://cam'', CaptureRelease ''rtmp://cam'']
            (fold (read_and_process P_cam ''rtmp://cam'' ''s1'') [px_frame (1, 2, 3), px_frame (4, 5, 6)] s_webrtc)"
    by blast
  from t2 opened reg have d: "process_with_opencv P_cam ''rtmp://cam'' ''s1''
          (replicate (length [px_frame (1, 2, 3)]) (\<lambda>s. s) @ [remove_stream P_cam ''s1'']) s_webrtc
        = emit [CaptureRelease ''rtmp://cam'']
            (remove_stream P_cam ''s1''
               (read_and_process P_cam ''rtmp://cam'' ''s1'' (px_frame (4, 5, 6))
                  (fold (read_and_process P_cam ''rtmp://cam'' ''s1'') [px_frame (1, 2, 3)] s_webrtc)))"
    by blast
  have unreg: "active_streams s_webrtc ''zz'' = None"
    by (simp add: s_webrtc_def add_stream_def s_init_def)
  note t3 = pull_loop_behaviour [of P_cam "''rtmp://cam''" "''zz''" _ s_webrtc _ _
      "px_frame (1, 2, 3)" "[px_frame (4, 5, 6)]"]
  from t3 opened' unreg have e: "process_with_opencv P_cam ''rtmp://cam'' ''zz'' [] s_webrtc
        = emit [CaptureRelease ''rtmp://cam'']
            (read_and_process P_cam ''rtmp://cam'' ''zz'' (px_frame (1, 2, 3)) s_webrtc)"
    by blast
  from closed a opened reg b c d unreg e show ?thesis by blast
qed

section \<open>The caller's frame\<close>

lemma blur_block_ok:
  "p < length h \<Longrightarrow> block_ok (pure_block cv ms ec Blur) p h (blur_block cv ec p h)"
  by (auto simp: block_ok_def pure_block_def blur_block_def new_array_def nth_append
      split: sum.splits)

lemma edge_block_ok:
  "p < length h \<Longrightarrow> block_ok (pure_block cv ms ec EdgeDetection) p h (edge_block cv ec p h)"
  by (auto simp: block_ok_def pure_block_def edge_block_def new_array_def nth_append
      split: sum.splits)

lemma color_block_ok:
  "p < length h \<Longrightarrow> block_ok (pure_block cv ms ec ColorFilter) p h (color_block cv ec p h)"
  by (auto simp: block_ok_def pure_block_def color_block_def new_array_def nth_append Let_def
      split: sum.splits)

lemma enhancement_block_ok:
  "p < length h \<Longrightarrow> block_ok (pure_block cv ms ec Enhancement) p h (enhancement_block ms ec p h)"
  by (auto simp: block_ok_def pure_block_def enhancement_block_def apply_ml_enhancement_in_store_def
      apply_ml_enhancement_def new_array_def nth_append
      split: sum.splits option.splits)

lemma and_then_ok:
  assumes first: "block_ok pure1 p h res"
    and second: "\<And>q h1. q < length h1 \<Longrightarrow> block_ok pure2 q h1 (block q h1)"
  shows "block_ok (\<lambda>f. case pure1 f of Inl e \<Rightarrow> Inl e | Inr g \<Rightarrow> pure2 g) p h (and_then res block)"
proof -
  obtain r h1 where res: "res = (r, h1)"
    by (cases res)
  from first res have grow1: "take (length h) h1 = h" "length h \<le> length h1"
    by (simp_all add: block_ok_def)
  show ?thesis
  proof (cases r)
    case (Inl e)
    with first res show ?thesis
      by (simp add: block_ok_def and_then_def)
  next
    case (Inr q)
    with first res have q: "q < length h1" "q = p \<or> length h \<le> q" "pure1 (h ! p) = Inr (h1 ! q)"
      by (simp_all add: block_ok_def)
    obtain r2 h2 where blk: "block q h1 = (r2, h2)"
      by (cases "block q h1")
    from second [OF q(1)] blk have grow2: "take (length h1) h2 = h1" "length h1 \<le> length h2"
      and val2: "case r2 of Inl e \<Rightarrow> pure2 (h1 ! q) = Inl e
            | Inr a \<Rightarrow> a < length h2 \<and> (a = q \<or> length h1 \<le> a) \<and> pure2 (h1 ! q) = Inr (h2 ! a)"
      by (simp_all add: block_ok_def)
    have "take (length h) h2 = take (length h) (take (length h1) h2)"
      using grow1(2) by (simp add: min_def)
    then have grow: "take (length h) h2 = h"
      using grow1(1) grow2(1) by simp
    have res2: "and_then res block = (r2, h2)"
      using res Inr blk by (simp add: and_then_def)
    show ?thesis
    proof (cases r2)
      case (Inl e)
      with val2 q(3) grow grow1(2) grow2(2) res2 show ?thesis
        by (simp add: block_ok_def)
    next
      case (Inr a)
      with val2 have a: "a < length h2" "a = q \<or> length h1 \<le> a" "pure2 (h1 ! q) = Inr (h2 ! a)"
        by simp_all
      have "a = p \<or> length h \<le> a"
        using a(2) q(2) grow1(2) by auto
      with a q(3) grow grow1(2) grow2(2) res2 Inr show ?thesis
        by (simp add: block_ok_def)
    qed
  qed
qed

lemma apply_effects_blocks:
  "apply_effects cv ms ec f =
     (case (case (case pure_block cv ms ec Blur f of
                    Inl e \<Rightarrow> Inl e | Inr g \<Rightarrow> pure_block cv ms ec EdgeDetection g) of
              Inl e \<Rightarrow> Inl e | Inr g \<Rightarrow> pure_block cv ms ec ColorFilter g) of
        Inl e \<Rightarrow> Inl e | Inr g \<Rightarrow> pure_block cv ms ec Enhancement g)"
  by (cases "blur_enabled ec"; cases "edge_detection_enabled ec";
      cases "color_filter_enabled ec"; cases "ml_enhancement_enabled ec";
      cases "ms ''enhancement''")
     (simp_all add: apply_effects_def pure_block_def split: sum.splits)

lemma apply_effects_in_store_ok:
  assumes "frame < length h"
  shows "block_ok (apply_effects cv ms ec) (length h) (h @ [h ! frame])
           (apply_effects_in_store cv ms ec frame h)"
proof -
  let ?h0 = "h @ [h ! frame]"
  have p0: "length h < length ?h0" by simp
  have "block_ok (\<lambda>f. case (case (case pure_block cv ms ec Blur f of
                    Inl e \<Rightarrow> Inl e | Inr g \<Rightarrow> pure_block cv ms ec EdgeDetection g) of
              Inl e \<Rightarrow> Inl e | Inr g \<Rightarrow> pure_block cv ms ec ColorFilter g) of
        Inl e \<Rightarrow> Inl e | Inr g \<Rightarrow> pure_block cv ms ec Enhancement g) (length h) ?h0
      (and_then (and_then (and_then (blur_block cv ec (length h) ?h0) (edge_block cv ec))
          (color_block cv ec)) (enhancement_block ms ec))"
    by (intro and_then_ok blur_block_ok [OF p0] edge_block_ok color_block_ok enhancement_block_ok)
  then show ?thesis
    by (simp add: apply_effects_in_store_def new_array_def apply_effects_blocks [abs_def])
qed

text \<open>
  Claim C10. \<open>apply_effects\<close> does not change the array it is given: whatever the
  configuration and whether the chain returns or raises, the frame behind the caller's
  reference is the same afterwards, as is every array that existed before the call. The
  array returned is never the caller's, and it holds the frame that the chain on values
  computes.
\<close>

theorem apply_effects_never_mutates_input:
  assumes "frame < length h"
    and "apply_effects_in_store cv ms ec frame h = (r, h')"
  shows "h' ! frame = h ! frame \<and> take (length h) h' = h
     \<and> (case r of
          Inl e \<Rightarrow> apply_effects cv ms ec (h ! frame) = Inl e
        | Inr a \<Rightarrow> length h \<le> a \<and> a < length h' \<and> apply_effects cv ms ec (h ! frame) = Inr (h' ! a))"
proof -
  from apply_effects_in_store_ok [OF assms(1), of cv ms ec] assms(2)
  have grow: "take (Suc (length h)) h' = h @ [h ! frame]" "Suc (length h) \<le> length h'"
    and val: "case r of
          Inl e \<Rightarrow> apply_effects cv ms ec (h ! frame) = Inl e
        | Inr a \<Rightarrow> a < length h' \<and> (a = length h \<or> Suc (length h) \<le> a)
             \<and> apply_effects cv ms ec (h ! frame) = Inr (h' ! a)"
    by (cases r; simp add: block_ok_def)+
  have "take (length h) h' = take (length h) (take (Suc (length h)) h')"
    by (simp add: min_def)
  then have same: "take (length h) h' = h"
    using grow(1) by simp
  have "h' ! frame = take (length h) h' ! frame"
    using assms(1) by simp
  then have inp: "h' ! frame = h ! frame"
    using same by simp
  from val have "case r of
          Inl e \<Rightarrow> apply_effects cv ms ec (h ! frame) = Inl e
        | Inr a \<Rightarrow> length h \<le> a \<and> a < length h' \<and> apply_effects cv ms ec (h ! frame) = Inr (h' ! a)"
    by (cases r) auto
  with inp same show ?thesis by simp
qed

theorem apply_effects_never_mutates_input_witness:
  "(0 :: nat) < length [px_frame (175, 10, 20)]
   \<and> apply_effects_in_store cv_plain Map.empty blur_and_color 0 [px_frame (175, 10, 20)]
        = (Inr 4, [px_frame (175, 10, 20), px_frame (175, 10, 20), px_frame (20, 10, 175),
                   px_frame (30, 10, 175), px_frame (30, 10, 175)])
   \<and> [px_frame (175, 10, 20), px_frame (175, 10, 20), px_frame (20, 10, 175),
       px_frame (30, 10, 175), px_frame (30, 10, 175)] ! 0 = [px_frame (175, 10, 20)] ! 0
   \<and> apply_effects cv_plain Map.empty blur_and_color ([px_frame (175, 10, 20)] ! 0)
        = Inr (px_frame (30, 10, 175))"
proof -
  let ?h = "[px_frame (175, 10, 20)]"
  let ?h' = "[px_frame (175, 10, 20), px_frame (175, 10, 20), px_frame (20, 10, 175),
              px_frame (30, 10, 175), px_frame (30, 10, 175)]"
  have live: "(0 :: nat) < length ?h"
    by simp
  have run: "apply_effects_in_store cv_plain Map.empty blur_and_color 0 ?h = (Inr 4, ?h')"
    by (simp add: apply_effects_in_store_def and_then_def blur_block_def edge_block_def
          color_block_def enhancement_block_def new_array_def blur_and_color_def
          default_effects_def cv_plain_def px_frame_def shift_hue_def hue_channel_def Let_def)
  from apply_effects_never_mutates_input [OF live run]
  have "?h' ! 0 = ?h ! 0"
    and "apply_effects cv_plain Map.empty blur_and_color (?h ! 0) = Inr (?h' ! 4)"
    by simp_all
  with live run show ?thesis
    by simp
qed

end
